theory Spec2Isabelle
  imports Main "HOL-Library.Char_ord" "HOL-Library.List_Lexorder"
begin

section \<open>Data model (api/models.py)\<close>

text \<open>
  The rows of the Django models that the order workflow touches. Primary keys and
  Python integers are \<open>int\<close>. A \<open>DecimalField\<close> with two decimal places is an
  \<open>int\<close> counting hundredths, so that sums and products are exact as they are for
  Python's \<open>Decimal\<close>. The range checks of the database columns themselves
  (\<open>max_digits\<close>, \<open>max_length\<close>) are not part of the model.
\<close>

datatype status = Pending | Shipped | Delivered | Cancelled

record User =
  user_id :: int
  username :: string

record Product =
  name :: string
  price :: int
  stock :: int
  is_active :: bool

record CartItem =
  ci_id :: int
  ci_cart :: int
  ci_product :: int
  ci_quantity :: int

record Order =
  o_id :: int
  o_user :: int
  o_status :: status
  o_total_price :: int
  o_shipping_address :: string

record OrderItem =
  oi_order :: int
  oi_product :: int
  oi_quantity :: int
  oi_price :: int

text \<open>
  The database: products by primary key, the users that own a cart (a cart is one-to-one
  with its user and is named by the user's id), the cart-item rows in table order, the
  orders and their items in creation order, and the two id sequences.
\<close>

record database =
  products :: "int \<rightharpoonup> Product"
  carts :: "int set"
  cart_items :: "CartItem list"
  orders :: "Order list"
  order_items :: "OrderItem list"
  cart_item_seq :: int
  order_seq :: int

section \<open>Rendering values into messages\<close>

text \<open>Python's \<open>str\<close> on an integer, as the f-strings of the views use it.\<close>

definition digits :: string where
  "digits = ''0123456789''"

function str_nat :: "nat \<Rightarrow> string" where
  "str_nat n = (if n < 10 then [digits ! n] else str_nat (n div 10) @ [digits ! (n mod 10)])"
  by pat_completeness auto
termination
  by (relation "measure id") auto

declare str_nat.simps [simp del]

definition str_int :: "int \<Rightarrow> string" where
  "str_int i = (if i < 0 then CHR ''-'' # str_nat (nat (- i)) else str_nat (nat i))"

fun status_name :: "status \<Rightarrow> string" where
  "status_name Pending = ''pending''"
| "status_name Shipped = ''shipped''"
| "status_name Delivered = ''delivered''"
| "status_name Cancelled = ''cancelled''"

section \<open>Inventory ledger: \<open>Product.decrease_stock\<close>\<close>

text \<open>\<open>self.save()\<close> on a product instance writes the instance over its row.\<close>

definition Product_save :: "database \<Rightarrow> int \<Rightarrow> Product \<Rightarrow> database" where
  "Product_save db pid self = db\<lparr>products := (products db)(pid \<mapsto> self)\<rparr>"

text \<open>
  \<open>decrease_stock\<close> on the instance \<open>self\<close> of the row \<open>pid\<close>: the new database, the
  instance after the call and the boolean the method returns.
\<close>

definition decrease_stock :: "database \<Rightarrow> int \<Rightarrow> Product \<Rightarrow> int \<Rightarrow> database \<times> Product \<times> bool" where
  "decrease_stock db pid self quantity =
     (if stock self \<ge> quantity then
        (let self' = self\<lparr>stock := stock self - quantity\<rparr>
         in (Product_save db pid self', self', True))
      else (db, self, False))"

definition in_stock :: "Product \<Rightarrow> bool" where
  "in_stock self = (stock self > 0)"

text \<open>
  The ledger operation of the specification, \<open>tryDecrement(productId, quantity)\<close>: the
  product is read from its row and \<open>decrease_stock\<close> is called on it. A missing row is
  \<open>Product.DoesNotExist\<close>, the value \<open>None\<close>.
\<close>

definition tryDecrement :: "database \<Rightarrow> int \<Rightarrow> int \<Rightarrow> (database \<times> bool) option" where
  "tryDecrement db pid quantity =
     (case products db pid of
        None \<Rightarrow> None
      | Some self \<Rightarrow> (case decrease_stock db pid self quantity of (db', _, ok) \<Rightarrow> Some (db', ok)))"

text \<open>A sequence of decrements, each on the state the previous one left; a missing row is skipped.\<close>

fun decrements :: "database \<Rightarrow> (int \<times> int) list \<Rightarrow> database" where
  "decrements db [] = db"
| "decrements db ((pid, quantity) # rest) =
     (case tryDecrement db pid quantity of
        None \<Rightarrow> decrements db rest
      | Some (db', _) \<Rightarrow> decrements db' rest)"

definition stock_nonneg :: "database \<Rightarrow> bool" where
  "stock_nonneg db = (\<forall>pid p. products db pid = Some p \<longrightarrow> 0 \<le> stock p)"

section \<open>HTTP responses\<close>

text \<open>
  The body of a \<open>Response\<close>: \<open>{'error': m}\<close>, the \<open>serializer.errors\<close> dictionary (field
  and message), a message with the cart snapshot (the cart's item rows), a message with the
  order snapshot (the order and its item rows), and the body of the error page of an
  exception that no handler of the view catches.
\<close>

datatype body =
    Error string
  | Errors "(string \<times> string) list"
  | Cart_message string "CartItem list"
  | Order_message string Order "OrderItem list"
  | Uncaught string

datatype response = Response nat body

fun status_code :: "response \<Rightarrow> nat" where
  "status_code (Response c b) = c"

section \<open>Cart aggregate\<close>

text \<open>\<open>cart.items.all()\<close>: the rows of the cart, in table order.\<close>

definition cart_items_of :: "database \<Rightarrow> int \<Rightarrow> CartItem list" where
  "cart_items_of db cart = filter (\<lambda>i. ci_cart i = cart) (cart_items db)"

text \<open>\<open>Cart.objects.get_or_create(user=user)\<close>.\<close>

definition Cart_get_or_create :: "database \<Rightarrow> int \<Rightarrow> database" where
  "Cart_get_or_create db user = db\<lparr>carts := insert user (carts db)\<rparr>"

text \<open>\<open>Cart.clear\<close>: \<open>self.items.all().delete()\<close>.\<close>

definition Cart_clear :: "database \<Rightarrow> int \<Rightarrow> database" where
  "Cart_clear db cart = db\<lparr>cart_items := filter (\<lambda>i. ci_cart i \<noteq> cart) (cart_items db)\<rparr>"

text \<open>
  \<open>Cart.total_price\<close>: the sum over the rows of \<open>item.product.price * item.quantity\<close>.
  Reading \<open>item.product\<close> of a row whose product is missing raises
  \<open>Product.DoesNotExist\<close>, the value \<open>None\<close>.
\<close>

fun sum_total_price :: "database \<Rightarrow> CartItem list \<Rightarrow> int option" where
  "sum_total_price db [] = Some 0"
| "sum_total_price db (item # items) =
     (case products db (ci_product item) of
        None \<Rightarrow> None
      | Some product \<Rightarrow>
          (case sum_total_price db items of
             None \<Rightarrow> None
           | Some t \<Rightarrow> Some (price product * ci_quantity item + t)))"

definition Cart_total_price :: "database \<Rightarrow> int \<Rightarrow> int option" where
  "Cart_total_price db cart = sum_total_price db (cart_items_of db cart)"

text \<open>The model's \<open>save\<close> of a row: the row with this primary key is overwritten, a new key is inserted.\<close>

fun write_row :: "CartItem \<Rightarrow> CartItem list \<Rightarrow> CartItem list" where
  "write_row r [] = [r]"
| "write_row r (x # xs) = (if ci_id x = ci_id r then r # xs else x # write_row r xs)"

text \<open>
  \<open>CartItem.save\<close>, with \<open>product\<close> the instance that \<open>self.product\<close> denotes: the
  quantity is cut down to the product's stock, then the row is written.
\<close>

definition CartItem_save :: "database \<Rightarrow> CartItem \<Rightarrow> Product \<Rightarrow> database \<times> CartItem" where
  "CartItem_save db self product =
     (let self' = (if ci_quantity self > stock product
                   then self\<lparr>ci_quantity := stock product\<rparr> else self)
      in (db\<lparr>cart_items := write_row self' (cart_items db)\<rparr>, self'))"

text \<open>
  \<open>CartItem.objects.get_or_create(cart=cart, product=product, defaults={'quantity': quantity})\<close>:
  the row of this cart and product, or a new row saved through \<open>CartItem.save\<close>. The flag
  is \<open>created\<close>.
\<close>

definition CartItem_get_or_create ::
  "database \<Rightarrow> int \<Rightarrow> int \<Rightarrow> Product \<Rightarrow> int \<Rightarrow> database \<times> CartItem \<times> bool" where
  "CartItem_get_or_create db cart pid product quantity =
     (case find (\<lambda>i. ci_cart i = cart \<and> ci_product i = pid) (cart_items db) of
        Some cart_item \<Rightarrow> (db, cart_item, False)
      | None \<Rightarrow>
          (let new_id = cart_item_seq db + 1;
               fresh = \<lparr>ci_id = new_id, ci_cart = cart, ci_product = pid, ci_quantity = quantity\<rparr>
           in (case CartItem_save (db\<lparr>cart_item_seq := new_id\<rparr>) fresh product of
                 (db', cart_item) \<Rightarrow> (db', cart_item, True))))"

subsection \<open>\<open>AddToCartSerializer\<close> and \<open>AddToCartView.post\<close>\<close>

text \<open>The request data; \<open>None\<close> is an absent field.\<close>

record AddToCartRequest =
  req_product_id :: "int option"
  req_quantity :: "int option"

definition validate_product_id :: "database \<Rightarrow> int \<Rightarrow> string + int" where
  "validate_product_id db v =
     (case products db v of
        None \<Rightarrow> Inl ''Product not found''
      | Some product \<Rightarrow>
          if \<not> is_active product then Inl ''Product not found''
          else if \<not> in_stock product then Inl ''Product is out of stock''
          else Inr v)"

text \<open>\<open>validate_quantity\<close> reads \<open>product_id\<close> from the initial data and skips the check when it is absent or falsy.\<close>

definition validate_quantity :: "database \<Rightarrow> int option \<Rightarrow> int \<Rightarrow> string + int" where
  "validate_quantity db initial_product_id v =
     (case initial_product_id of
        None \<Rightarrow> Inr v
      | Some pid \<Rightarrow>
          if pid = 0 then Inr v
          else (case products db pid of
                  None \<Rightarrow> Inr v
                | Some product \<Rightarrow>
                    if v > stock product
                    then Inl (''Only '' @ str_int (stock product) @ '' items available in stock'')
                    else Inr v))"

text \<open>The two fields, each with its own error; the serializer is valid when neither has one.\<close>

definition product_id_field :: "database \<Rightarrow> AddToCartRequest \<Rightarrow> string + int" where
  "product_id_field db req =
     (case req_product_id req of
        None \<Rightarrow> Inl ''This field is required.''
      | Some v \<Rightarrow> validate_product_id db v)"

definition quantity_field :: "database \<Rightarrow> AddToCartRequest \<Rightarrow> string + int" where
  "quantity_field db req =
     (case req_quantity req of
        None \<Rightarrow> validate_quantity db (req_product_id req) 1
      | Some v \<Rightarrow>
          if v < 1 then Inl ''Ensure this value is greater than or equal to 1.''
          else validate_quantity db (req_product_id req) v)"

definition AddToCartSerializer :: "database \<Rightarrow> AddToCartRequest \<Rightarrow> (string \<times> string) list + int \<times> int" where
  "AddToCartSerializer db req =
     (case (product_id_field db req, quantity_field db req) of
        (Inr pid, Inr q) \<Rightarrow> Inr (pid, q)
      | (Inl e, Inr q) \<Rightarrow> Inl [(''product_id'', e)]
      | (Inr pid, Inl e) \<Rightarrow> Inl [(''quantity'', e)]
      | (Inl e, Inl e') \<Rightarrow> Inl [(''product_id'', e), (''quantity'', e')])"

definition AddToCartView_post :: "database \<Rightarrow> User \<Rightarrow> AddToCartRequest \<Rightarrow> database \<times> response" where
  "AddToCartView_post db user req =
     (case AddToCartSerializer db req of
        Inl errors \<Rightarrow> (db, Response 400 (Errors errors))
      | Inr (pid, quantity) \<Rightarrow>
          (let cart = user_id user; db1 = Cart_get_or_create db cart
           in (case products db1 pid of
                 None \<Rightarrow> (db1, Response 404 (Error ''Product not found''))
               | Some product \<Rightarrow>
                   if \<not> is_active product then (db1, Response 404 (Error ''Product not found''))
                   else if stock product < quantity
                   then (db1, Response 400 (Error (''Only '' @ str_int (stock product) @ '' items available'')))
                   else
                     (case CartItem_get_or_create db1 cart pid product quantity of
                        (db2, cart_item, created) \<Rightarrow>
                          (let db3 =
                             (if \<not> created then
                                (let q1 = ci_quantity cart_item + quantity;
                                     q2 = (if q1 > stock product then stock product else q1)
                                 in fst (CartItem_save db2 (cart_item\<lparr>ci_quantity := q2\<rparr>) product))
                              else db2)
                           in (db3, Response 200
                                 (Cart_message ''Product added to cart successfully''
                                    (cart_items_of db3 cart))))))))"

subsection \<open>\<open>UpdateCartItemSerializer\<close> and \<open>UpdateCartItemView.patch\<close>\<close>

text \<open>
  \<open>validate_quantity\<close> reads \<open>cart_item.product.stock\<close>; \<open>product\<close> is the row that
  \<open>cart_item.product\<close> denotes, and a missing row raises \<open>Product.DoesNotExist\<close>, the
  result \<open>None\<close>.
\<close>

definition UpdateCartItemSerializer ::
  "Product option \<Rightarrow> int option \<Rightarrow> ((string \<times> string) list + int) option" where
  "UpdateCartItemSerializer product req =
     (case req of
        None \<Rightarrow> Some (Inl [(''quantity'', ''This field is required.'')])
      | Some v \<Rightarrow>
          if v < 1 then Some (Inl [(''quantity'', ''Ensure this value is greater than or equal to 1.'')])
          else (case product of
                  None \<Rightarrow> None
                | Some p \<Rightarrow>
                    if v > stock p
                    then Some (Inl [(''quantity'', ''Only '' @ str_int (stock p) @ '' items available in stock'')])
                    else Some (Inr v)))"

definition UpdateCartItemView_patch :: "database \<Rightarrow> User \<Rightarrow> int \<Rightarrow> int option \<Rightarrow> database \<times> response" where
  "UpdateCartItemView_patch db user item_id req =
     (case find (\<lambda>i. ci_id i = item_id \<and> ci_cart i = user_id user) (cart_items db) of
        None \<Rightarrow> (db, Response 404 (Error ''Cart item not found''))
      | Some cart_item \<Rightarrow>
          (case UpdateCartItemSerializer (products db (ci_product cart_item)) req of
             None \<Rightarrow> (db, Response 500 (Uncaught ''Product.DoesNotExist''))
           | Some (Inl errors) \<Rightarrow> (db, Response 400 (Errors errors))
           | Some (Inr v) \<Rightarrow>
               (case products db (ci_product cart_item) of
                  None \<Rightarrow> (db, Response 500 (Uncaught ''Product.DoesNotExist''))
                | Some product \<Rightarrow>
                    (let db' = fst (CartItem_save db (cart_item\<lparr>ci_quantity := v\<rparr>) product)
                     in (db', Response 200
                           (Cart_message ''Cart item updated successfully''
                              (cart_items_of db' (ci_cart cart_item))))))))"

text \<open>The cart-stock invariant: every cart row references a product and asks for no more than its stock.\<close>

definition row_within_stock :: "database \<Rightarrow> CartItem \<Rightarrow> bool" where
  "row_within_stock db i =
     (case products db (ci_product i) of None \<Rightarrow> False | Some p \<Rightarrow> ci_quantity i \<le> stock p)"

definition cart_stock_inv :: "database \<Rightarrow> bool" where
  "cart_stock_inv db = list_all (row_within_stock db) (cart_items db)"

section \<open>Notification fan-out\<close>

text \<open>
  A message is sent to a channel-layer group: the group \<open>user_{id}\<close> of one user, or
  \<open>admin_orders\<close>. The events carry the fields that the consumers' class methods pass to
  \<open>group_send\<close>.
\<close>

datatype group = User_group int | Admin_orders

datatype event =
    Order_created int string string
  | Order_update int status status string string
  | New_order int int string int string string
  | Order_status_changed int int status status string string

text \<open>
  The transport is a parameter: \<open>create_task\<close> takes the transport's state and a message
  and either gives the new state or raises (\<open>None\<close>). A \<open>try\<close> block of such calls stops
  at the first one that raises, and its handler swallows the exception.
\<close>

type_synonym 'c create_task = "'c \<Rightarrow> group \<times> event \<Rightarrow> 'c option"

fun try_notify :: "'c create_task \<Rightarrow> 'c \<Rightarrow> (group \<times> event) list \<Rightarrow> 'c" where
  "try_notify create_task ch [] = ch"
| "try_notify create_task ch (m # ms) =
     (case create_task ch m of
        None \<Rightarrow> ch
      | Some ch' \<Rightarrow> try_notify create_task ch' ms)"

text \<open>
  Two transports. \<open>asyncio.create_task\<close> needs a running event loop in the calling
  thread. The views and \<open>Order.update_status\<close> are synchronous functions, so a call made
  from them finds no loop and raises \<open>RuntimeError\<close>: that transport is \<open>failing\<close>.
  \<open>delivering\<close> is the transport of a caller inside a running loop; it records what was
  sent.
\<close>

definition delivering :: "(group \<times> event) list create_task" where
  "delivering ch m = Some (ch @ [m])"

definition failing :: "'c create_task" where
  "failing ch m = None"

section \<open>Order workflow: \<open>CreateOrderView.post\<close>\<close>

text \<open>
  The characters that \<open>str.strip\<close> removes from both ends, among the code points below
  256: those for which \<open>str.isspace\<close> holds.
\<close>

definition isspace :: "char \<Rightarrow> bool" where
  "isspace c = (c \<in> set [CHR '' '', CHR 0x09, CHR 0x0A, CHR 0x0B, CHR 0x0C, CHR 0x0D,
                          CHR 0x1C, CHR 0x1D, CHR 0x1E, CHR 0x1F, CHR 0x85, CHR 0xA0])"

definition strip :: "string \<Rightarrow> string" where
  "strip s = rev (dropWhile isspace (rev (dropWhile isspace s)))"

text \<open>
  \<open>CreateOrderSerializer\<close>: a required \<open>CharField(max_length=500)\<close>. The field is
  refused when it is blank after trimming; the trimmed value then goes through the
  validators of the field, the length bound and the ban on null characters, whose messages
  are collected (the ban on surrogate code points does not arise for characters below 256);
  \<open>validate_shipping_address\<close> comes last.
\<close>

definition validate_shipping_address :: "string \<Rightarrow> string + string" where
  "validate_shipping_address v =
     (if strip v = [] then Inl ''Shipping address cannot be empty'' else Inr v)"

definition run_validators :: "string \<Rightarrow> string list" where
  "run_validators v =
     (if length v > 500 then [''Ensure this field has no more than 500 characters.''] else [])
     @ (if CHR 0x00 \<in> set v then [''Null characters are not allowed.''] else [])"

definition CreateOrderSerializer :: "string option \<Rightarrow> (string \<times> string) list + string" where
  "CreateOrderSerializer req =
     (case req of
        None \<Rightarrow> Inl [(''shipping_address'', ''This field is required.'')]
      | Some raw \<Rightarrow>
          if strip raw = [] then Inl [(''shipping_address'', ''This field may not be blank.'')]
          else if run_validators (strip raw) \<noteq> []
          then Inl (map (Pair ''shipping_address'') (run_validators (strip raw)))
          else (case validate_shipping_address (strip raw) of
                  Inl e \<Rightarrow> Inl [(''shipping_address'', e)]
                | Inr v \<Rightarrow> Inr v))"

text \<open>
  The stock validation loop (lines 523--527): \<open>Some\<close> is the response of the early
  return, \<open>None\<close> is the loop running to its end.
\<close>

fun validate_stock :: "database \<Rightarrow> CartItem list \<Rightarrow> response option" where
  "validate_stock db [] = None"
| "validate_stock db (item # items) =
     (case products db (ci_product item) of
        None \<Rightarrow> Some (Response 500 (Uncaught ''Product.DoesNotExist''))
      | Some product \<Rightarrow>
          if ci_quantity item > stock product
          then Some (Response 400 (Error (''Insufficient stock for '' @ name product
                        @ ''. Available: '' @ str_int (stock product))))
          else validate_stock db items)"

text \<open>\<open>Order.objects.create\<close> and \<open>OrderItem.objects.create\<close>.\<close>

definition Order_create :: "database \<Rightarrow> int \<Rightarrow> int \<Rightarrow> string \<Rightarrow> database \<times> Order" where
  "Order_create db user total_price address =
     (let order = \<lparr>o_id = order_seq db + 1, o_user = user, o_status = Pending,
                   o_total_price = total_price, o_shipping_address = address\<rparr>
      in (db\<lparr>orders := orders db @ [order], order_seq := order_seq db + 1\<rparr>, order))"

definition OrderItem_create :: "database \<Rightarrow> int \<Rightarrow> int \<Rightarrow> int \<Rightarrow> int \<Rightarrow> database" where
  "OrderItem_create db order pid quantity unit_price =
     db\<lparr>order_items := order_items db
           @ [\<lparr>oi_order = order, oi_product = pid, oi_quantity = quantity, oi_price = unit_price\<rparr>]\<rparr>"

text \<open>
  The loop of lines 537--545 over the rows fetched at its start. Each \<open>item.product\<close> is
  read from the database as it is at that iteration; the boolean that \<open>decrease_stock\<close>
  returns is dropped, as the view drops it. The flag of the result is \<open>False\<close> when
  \<open>item.product\<close> raised \<open>Product.DoesNotExist\<close>; the database is then the one reached
  so far, since the view opens no transaction.
\<close>

fun create_items :: "database \<Rightarrow> int \<Rightarrow> CartItem list \<Rightarrow> database \<times> bool" where
  "create_items db order [] = (db, True)"
| "create_items db order (item # items) =
     (case products db (ci_product item) of
        None \<Rightarrow> (db, False)
      | Some product \<Rightarrow>
          (let db1 = OrderItem_create db order (ci_product item) (ci_quantity item) (price product);
               db2 = fst (decrease_stock db1 (ci_product item) product (ci_quantity item))
           in create_items db2 order items))"

definition order_items_of :: "database \<Rightarrow> int \<Rightarrow> OrderItem list" where
  "order_items_of db order = filter (\<lambda>i. oi_order i = order) (order_items db)"

text \<open>
  The view in two parts, so that the runs of two requests can be interleaved.
  \<open>CreateOrderView_check\<close> is lines 509--527: the serializer, the cart lookup and the
  stock validation; \<open>Inl\<close> is an early return, \<open>Inr\<close> the validated shipping address.
  \<open>CreateOrderView_commit\<close> is lines 529--575: the order, its items, the decrements, the
  clearing of the cart and the notifications. The parameter \<open>now\<close> is the text of
  \<open>datetime.now().isoformat()\<close>, one reading of the clock for the messages of a view.
\<close>

definition CreateOrderView_check :: "database \<Rightarrow> User \<Rightarrow> string option \<Rightarrow> response + string" where
  "CreateOrderView_check db user req =
     (case CreateOrderSerializer req of
        Inl errors \<Rightarrow> Inl (Response 400 (Errors errors))
      | Inr address \<Rightarrow>
          if user_id user \<notin> carts db then Inl (Response 400 (Error ''Cart is empty''))
          else if cart_items_of db (user_id user) = [] then Inl (Response 400 (Error ''Cart is empty''))
          else (case validate_stock db (cart_items_of db (user_id user)) of
                  Some r \<Rightarrow> Inl r
                | None \<Rightarrow> Inr address))"

definition order_created_events :: "User \<Rightarrow> Order \<Rightarrow> string \<Rightarrow> (group \<times> event) list" where
  "order_created_events user order now =
     [(User_group (user_id user),
         Order_created (o_id order)
           (''Your order #'' @ str_int (o_id order) @ '' has been created successfully!'') now),
      (Admin_orders,
         New_order (o_id order) (user_id user) (username user) (o_total_price order)
           (''New order #'' @ str_int (o_id order) @ '' created by '' @ username user) now)]"

definition CreateOrderView_commit ::
  "'c create_task \<Rightarrow> string \<Rightarrow> database \<times> 'c \<Rightarrow> User \<Rightarrow> string \<Rightarrow> (database \<times> 'c) \<times> response" where
  "CreateOrderView_commit create_task now s user address =
     (case s of (db, ch) \<Rightarrow>
        (case Cart_total_price db (user_id user) of
           None \<Rightarrow> ((db, ch), Response 500 (Uncaught ''Product.DoesNotExist''))
         | Some total_price \<Rightarrow>
             (case Order_create db (user_id user) total_price address of
                (db1, order) \<Rightarrow>
                  (case create_items db1 (o_id order) (cart_items_of db1 (user_id user)) of
                     (db2, finished) \<Rightarrow>
                       if \<not> finished then ((db2, ch), Response 500 (Uncaught ''Product.DoesNotExist''))
                       else
                         (let db3 = Cart_clear db2 (user_id user);
                              ch' = try_notify create_task ch (order_created_events user order now)
                          in ((db3, ch'),
                              Response 201 (Order_message ''Order created successfully'' order
                                              (order_items_of db3 (o_id order)))))))))"

definition CreateOrderView_post ::
  "'c create_task \<Rightarrow> string \<Rightarrow> database \<times> 'c \<Rightarrow> User \<Rightarrow> string option \<Rightarrow> (database \<times> 'c) \<times> response" where
  "CreateOrderView_post create_task now s user req =
     (case CreateOrderView_check (fst s) user req of
        Inl r \<Rightarrow> (s, r)
      | Inr address \<Rightarrow> CreateOrderView_commit create_task now s user address)"

section \<open>Order workflow: status updates\<close>

text \<open>\<open>self.save()\<close> on an order instance.\<close>

definition Order_save :: "database \<Rightarrow> Order \<Rightarrow> database" where
  "Order_save db self = db\<lparr>orders := map (\<lambda>row. if o_id row = o_id self then self else row) (orders db)\<rparr>"

text \<open>\<open>Order.update_status\<close>: the status is stored, then one \<open>order_update\<close> is sent inside a \<open>try\<close>.\<close>

definition update_status ::
  "'c create_task \<Rightarrow> database \<times> 'c \<Rightarrow> Order \<Rightarrow> status \<Rightarrow> (database \<times> 'c) \<times> Order" where
  "update_status create_task s self new_status =
     (case s of (db, ch) \<Rightarrow>
        (let old_status = o_status self;
             self' = self\<lparr>o_status := new_status\<rparr>;
             db' = Order_save db self';
             ch' = try_notify create_task ch
                     [(User_group (o_user self'),
                        Order_update (o_id self') old_status new_status
                          (''Your order #'' @ str_int (o_id self') @ '' status has been updated to ''
                             @ status_name new_status) [])]
         in ((db', ch'), self')))"

text \<open>The \<open>ChoiceField\<close> over \<open>Order.STATUS_CHOICES\<close>.\<close>

definition to_internal_value :: "string \<Rightarrow> status option" where
  "to_internal_value v =
     (if v = ''pending'' then Some Pending
      else if v = ''shipped'' then Some Shipped
      else if v = ''delivered'' then Some Delivered
      else if v = ''cancelled'' then Some Cancelled
      else None)"

definition validate_status :: "Order \<Rightarrow> status \<Rightarrow> string + status" where
  "validate_status order v =
     (if o_status order \<in> set [Delivered, Cancelled] \<and> v \<notin> set [Delivered, Cancelled]
      then Inl (''Cannot change status from '' @ status_name (o_status order) @ '' to '' @ status_name v)
      else Inr v)"

definition UpdateOrderStatusSerializer :: "Order \<Rightarrow> string option \<Rightarrow> (string \<times> string) list + status" where
  "UpdateOrderStatusSerializer order req =
     (case req of
        None \<Rightarrow> Inl [(''status'', ''This field is required.'')]
      | Some raw \<Rightarrow>
          (case to_internal_value raw of
             None \<Rightarrow> Inl [(''status'', [CHR 0x22] @ raw @ [CHR 0x22] @ '' is not a valid choice.'')]
           | Some v \<Rightarrow>
               (case validate_status order v of
                  Inl e \<Rightarrow> Inl [(''status'', e)]
                | Inr v' \<Rightarrow> Inr v')))"

definition status_events :: "Order \<Rightarrow> status \<Rightarrow> status \<Rightarrow> string \<Rightarrow> (group \<times> event) list" where
  "status_events order old_status new_status now =
     [(User_group (o_user order),
         Order_update (o_id order) old_status new_status
           (''Your order #'' @ str_int (o_id order) @ '' status has been updated to ''
              @ status_name new_status) now),
      (Admin_orders,
         Order_status_changed (o_id order) (o_user order) old_status new_status
           (''Order #'' @ str_int (o_id order) @ '' status changed from '' @ status_name old_status
              @ '' to '' @ status_name new_status) now)]"

definition AdminOrderStatusUpdateView_patch ::
  "'c create_task \<Rightarrow> string \<Rightarrow> database \<times> 'c \<Rightarrow> int \<Rightarrow> string option \<Rightarrow> (database \<times> 'c) \<times> response" where
  "AdminOrderStatusUpdateView_patch create_task now s order_id req =
     (case find (\<lambda>row. o_id row = order_id) (orders (fst s)) of
        None \<Rightarrow> (s, Response 404 (Error ''Order not found''))
      | Some order \<Rightarrow>
          (case UpdateOrderStatusSerializer order req of
             Inl errors \<Rightarrow> (s, Response 400 (Errors errors))
           | Inr new_status \<Rightarrow>
               (let old_status = o_status order
                in (case update_status create_task s order new_status of
                      ((db', ch'), order') \<Rightarrow>
                        (let ch'' = try_notify create_task ch'
                                      (status_events order' old_status new_status now)
                         in ((db', ch''),
                             Response 200
                               (Order_message (''Order status updated to '' @ status_name new_status)
                                  order' (order_items_of db' (o_id order')))))))))"

text \<open>The status of an order in the database, by primary key.\<close>

definition status_of :: "database \<Rightarrow> int \<Rightarrow> status option" where
  "status_of db order_id = map_option o_status (find (\<lambda>row. o_id row = order_id) (orders db))"

text \<open>The transition relation as the specification words it.\<close>

fun spec_transition :: "status \<Rightarrow> status \<Rightarrow> bool" where
  "spec_transition Pending t = (t = Shipped \<or> t = Cancelled)"
| "spec_transition Shipped t = (t = Delivered \<or> t = Cancelled)"
| "spec_transition Delivered t = False"
| "spec_transition Cancelled t = False"

section \<open>Cache invalidation (api/cache\_utils.py)\<close>















section \<open>Notions used in the statements\<close>

text \<open>The response of the early return of the stock validation, for the product that is short.\<close>

definition insufficient_stock :: "Product \<Rightarrow> response" where
  "insufficient_stock p =
     Response 400 (Error (''Insufficient stock for '' @ name p @ ''. Available: '' @ str_int (stock p)))"

text \<open>
  What the specification expects of a cart row at order time: its price, and the order item
  that freezes its quantity and the unit price of its product.
\<close>

definition line_total :: "database \<Rightarrow> CartItem \<Rightarrow> int" where
  "line_total db i = (case products db (ci_product i) of None \<Rightarrow> 0 | Some p \<Rightarrow> ci_quantity i * price p)"

definition frozen_line :: "database \<Rightarrow> int \<Rightarrow> CartItem \<Rightarrow> OrderItem" where
  "frozen_line db order i =
     \<lparr>oi_order = order, oi_product = ci_product i, oi_quantity = ci_quantity i,
      oi_price = (case products db (ci_product i) of None \<Rightarrow> 0 | Some p \<Rightarrow> price p)\<rparr>"

text \<open>The quantity that an add-to-cart request asks for: the field, or its default.\<close>

definition requested_quantity :: "AddToCartRequest \<Rightarrow> int" where
  "requested_quantity req = (case req_quantity req of None \<Rightarrow> 1 | Some q \<Rightarrow> q)"

text \<open>The primary key of the cart rows: no two rows share an id, and the sequence is ahead of all of them.\<close>

definition cart_item_keys_ok :: "database \<Rightarrow> bool" where
  "cart_item_keys_ok db =
     (distinct (map ci_id (cart_items db)) \<and> list_all (\<lambda>i. ci_id i \<le> cart_item_seq db) (cart_items db))"

text \<open>The quantity that a cart holds of a product: that of the row of the two, or nothing.\<close>

definition quantity_in_cart :: "database \<Rightarrow> int \<Rightarrow> int \<Rightarrow> int" where
  "quantity_in_cart db cart pid =
     (case find (\<lambda>i. ci_cart i = cart \<and> ci_product i = pid) (cart_items db) of
        None \<Rightarrow> 0
      | Some i \<Rightarrow> ci_quantity i)"



section \<open>Example states\<close>

text \<open>Two customers, and the databases of the scenarios that the theorems below are run on.\<close>

definition alice :: User where
  "alice = \<lparr>user_id = 1, username = ''alice''\<rparr>"

definition bob :: User where
  "bob = \<lparr>user_id = 2, username = ''bob''\<rparr>"

definition phone :: Product where
  "phone = \<lparr>name = ''Phone'', price = 2000, stock = 5, is_active = True\<rparr>"

definition cable :: Product where
  "cable = \<lparr>name = ''Cable'', price = 1000, stock = 0, is_active = True\<rparr>"

definition last_phone :: Product where
  "last_phone = \<lparr>name = ''Phone'', price = 2000, stock = 1, is_active = True\<rparr>"

text \<open>Alice's cart holds one phone; five are in stock.\<close>

definition db_one_line :: database where
  "db_one_line =
     \<lparr>products = [1 \<mapsto> phone], carts = {1},
      cart_items = [\<lparr>ci_id = 1, ci_cart = 1, ci_product = 1, ci_quantity = 1\<rparr>],
      orders = [], order_items = [], cart_item_seq = 1, order_seq = 0\<rparr>"

text \<open>Alice's cart holds two phones and one cable; no cable is in stock.\<close>

definition db_short :: database where
  "db_short =
     \<lparr>products = [1 \<mapsto> phone, 2 \<mapsto> cable], carts = {1},
      cart_items = [\<lparr>ci_id = 1, ci_cart = 1, ci_product = 1, ci_quantity = 2\<rparr>,
                    \<lparr>ci_id = 2, ci_cart = 1, ci_product = 2, ci_quantity = 1\<rparr>],
      orders = [], order_items = [], cart_item_seq = 2, order_seq = 0\<rparr>"

text \<open>Alice's and Bob's carts each hold one phone; one phone is in stock.\<close>

definition db_race :: database where
  "db_race =
     \<lparr>products = [1 \<mapsto> last_phone], carts = {1, 2},
      cart_items = [\<lparr>ci_id = 1, ci_cart = 1, ci_product = 1, ci_quantity = 1\<rparr>,
                    \<lparr>ci_id = 2, ci_cart = 2, ci_product = 1, ci_quantity = 1\<rparr>],
      orders = [], order_items = [], cart_item_seq = 2, order_seq = 0\<rparr>"

text \<open>Alice's order 1 has been delivered; her order 2 is pending.\<close>

definition db_orders :: database where
  "db_orders =
     \<lparr>products = [1 \<mapsto> phone], carts = {1}, cart_items = [],
      orders = [\<lparr>o_id = 1, o_user = 1, o_status = Delivered, o_total_price = 2000,
                  o_shipping_address = ''1 Main St''\<rparr>,
                \<lparr>o_id = 2, o_user = 1, o_status = Pending, o_total_price = 4000,
                  o_shipping_address = ''1 Main St''\<rparr>],
      order_items = [\<lparr>oi_order = 1, oi_product = 1, oi_quantity = 1, oi_price = 2000\<rparr>,
                     \<lparr>oi_order = 2, oi_product = 1, oi_quantity = 2, oi_price = 2000\<rparr>],
      cart_item_seq = 0, order_seq = 2\<rparr>"

definition charger :: Product where
  "charger = \<lparr>name = ''Charger'', price = 1500, stock = 3, is_active = True\<rparr>"

text \<open>
  Five phones and three chargers are in stock. Alice's cart holds one phone and Bob's cart
  holds five.
\<close>

definition db_two_carts :: database where
  "db_two_carts =
     \<lparr>products = [1 \<mapsto> phone, 3 \<mapsto> charger], carts = {1, 2},
      cart_items = [\<lparr>ci_id = 1, ci_cart = 1, ci_product = 1, ci_quantity = 1\<rparr>,
                    \<lparr>ci_id = 2, ci_cart = 2, ci_product = 1, ci_quantity = 5\<rparr>],
      orders = [], order_items = [], cart_item_seq = 2, order_seq = 0\<rparr>"

section \<open>Inventory ledger: properties\<close>

lemma decrease_stock_nonneg:
  assumes "stock_nonneg db" and "0 \<le> stock self"
  shows "stock_nonneg (fst (decrease_stock db pid self quantity))"
  using assms by (auto simp: decrease_stock_def Product_save_def stock_nonneg_def Let_def)

lemma tryDecrement_nonneg:
  assumes "stock_nonneg db" and "tryDecrement db pid quantity = Some (db', ok)"
  shows "stock_nonneg db'"
proof (cases "products db pid")
  case None
  with assms(2) show ?thesis by (simp add: tryDecrement_def)
next
  case (Some self)
  with assms(1) have "0 \<le> stock self" by (simp add: stock_nonneg_def)
  with assms(1) have "stock_nonneg (fst (decrease_stock db pid self quantity))"
    by (rule decrease_stock_nonneg)
  moreover from assms(2) Some have "db' = fst (decrease_stock db pid self quantity)"
    by (auto simp: tryDecrement_def split: prod.splits)
  ultimately show ?thesis by simp
qed

lemma decrements_nonneg: "stock_nonneg db \<Longrightarrow> stock_nonneg (decrements db qs)"
proof (induction qs arbitrary: db)
  case Nil
  then show ?case by simp
next
  case (Cons a qs)
  obtain pid quantity where a: "a = (pid, quantity)" by (cases a)
  show ?case
  proof (cases "tryDecrement db pid quantity")
    case None
    with a Cons show ?thesis by simp
  next
    case (Some r)
    obtain db' ok where r: "r = (db', ok)" by (cases r)
    from Cons.prems Some r have "stock_nonneg db'" by (auto intro: tryDecrement_nonneg)
    then have "stock_nonneg (decrements db' qs)" by (rule Cons.IH)
    with a Some r show ?thesis by simp
  qed
qed

text \<open>
  C3. The decrement returns a boolean. On a product with \<open>stock \<ge> quantity\<close> it returns
  \<open>True\<close> and the row's stock is the old stock minus the quantity; otherwise it returns
  \<open>False\<close> and the database is the one it was given. No other row changes. Starting from
  non-negative stocks, every sequence of decrements leaves every stock non-negative.
\<close>

theorem tryDecrement_contract:
  assumes "products db pid = Some p" and "stock_nonneg db"
  shows "(\<exists>db' ok. tryDecrement db pid quantity = Some (db', ok)
           \<and> ok = (quantity \<le> stock p)
           \<and> (ok \<longrightarrow> products db' pid = Some (p\<lparr>stock := stock p - quantity\<rparr>))
           \<and> (\<not> ok \<longrightarrow> db' = db)
           \<and> (\<forall>pid'. pid' \<noteq> pid \<longrightarrow> products db' pid' = products db pid')
           \<and> stock_nonneg db')
         \<and> stock_nonneg (decrements db qs)"
proof (intro conjI)
  from assms(2) show "stock_nonneg (decrements db qs)" by (rule decrements_nonneg)
next
  let ?r = "decrease_stock db pid p quantity"
  have t: "tryDecrement db pid quantity = Some (fst ?r, snd (snd ?r))"
    using assms(1) by (simp add: tryDecrement_def split: prod.splits)
  from assms have "0 \<le> stock p" by (simp add: stock_nonneg_def)
  with assms(2) have n: "stock_nonneg (fst ?r)" by (rule decrease_stock_nonneg)
  have "snd (snd ?r) = (quantity \<le> stock p)"
    and "snd (snd ?r) \<longrightarrow> products (fst ?r) pid = Some (p\<lparr>stock := stock p - quantity\<rparr>)"
    and "\<not> snd (snd ?r) \<longrightarrow> fst ?r = db"
    and "\<forall>pid'. pid' \<noteq> pid \<longrightarrow> products (fst ?r) pid' = products db pid'"
    by (simp_all add: decrease_stock_def Product_save_def Let_def)
  with t n show "\<exists>db' ok. tryDecrement db pid quantity = Some (db', ok)
           \<and> ok = (quantity \<le> stock p)
           \<and> (ok \<longrightarrow> products db' pid = Some (p\<lparr>stock := stock p - quantity\<rparr>))
           \<and> (\<not> ok \<longrightarrow> db' = db)
           \<and> (\<forall>pid'. pid' \<noteq> pid \<longrightarrow> products db' pid' = products db pid')
           \<and> stock_nonneg db'"
    by blast
qed

theorem tryDecrement_contract_witness:
  "products db_one_line 1 = Some phone \<and> stock_nonneg db_one_line
   \<and> (\<exists>db'. tryDecrement db_one_line 1 2 = Some (db', True)
           \<and> products db' 1 = Some (phone\<lparr>stock := 3\<rparr>))
   \<and> (\<exists>db'. tryDecrement db_one_line 1 6 = Some (db', False) \<and> db' = db_one_line)
   \<and> stock_nonneg (decrements db_one_line [(1, 2), (1, 6), (1, 3)])"
proof -
  have h1: "products db_one_line 1 = Some phone" by (simp add: db_one_line_def)
  have h2: "stock_nonneg db_one_line" by (simp add: stock_nonneg_def db_one_line_def phone_def)
  have s: "stock phone = 5" by (simp add: phone_def)
  show ?thesis
    using h1 h2 s
      tryDecrement_contract [OF h1 h2, of 2 "[(1, 2), (1, 6), (1, 3)]"]
      tryDecrement_contract [OF h1 h2, of 6 "[]"]
    by auto
qed

section \<open>Status updates: properties\<close>

lemma status_of_Order_save:
  assumes "find (\<lambda>row. o_id row = k) (orders db) = Some order"
  shows "status_of (Order_save db (order\<lparr>o_status := t\<rparr>)) (o_id order) = Some t"
proof -
  have "find (\<lambda>row. o_id row = o_id order)
          (map (\<lambda>row. if o_id row = o_id order then order\<lparr>o_status := t\<rparr> else row) rows)
        = Some (order\<lparr>o_status := t\<rparr>)"
    if "find (\<lambda>row. o_id row = o_id order) rows = Some r" for rows r
    using that by (induction rows) (auto split: if_splits)
  moreover from assms have "o_id order = k" by (auto simp: find_Some_iff)
  ultimately show ?thesis using assms by (simp add: status_of_def Order_save_def)
qed

lemma update_status_db:
  "fst (fst (update_status create_task (db, ch) order t)) = Order_save db (order\<lparr>o_status := t\<rparr>)"
  by (simp add: update_status_def Let_def)

text \<open>
  C2, as the code has it. For an order that exists and a request that names one of the four
  statuses, the update is rejected exactly when the order is delivered or cancelled and the
  target is pending or shipped: the response is 400 with the message of
  \<open>validate_status\<close>, and neither the database nor the channel changes. Every other
  request is accepted with 200 and the target becomes the order's status.
\<close>

theorem patch_rejects_only_terminal_to_open:
  assumes "find (\<lambda>row. o_id row = order_id) (orders db) = Some order"
    and "to_internal_value raw = Some t"
  shows "(if o_status order \<in> {Delivered, Cancelled} \<and> t \<in> {Pending, Shipped}
          then AdminOrderStatusUpdateView_patch create_task now (db, ch) order_id (Some raw)
                 = ((db, ch), Response 400 (Errors [(''status'',
                      ''Cannot change status from '' @ status_name (o_status order)
                        @ '' to '' @ status_name t)]))
          else status_code (snd (AdminOrderStatusUpdateView_patch create_task now (db, ch) order_id (Some raw))) = 200
             \<and> status_of (fst (fst (AdminOrderStatusUpdateView_patch create_task now (db, ch) order_id (Some raw))))
                  order_id = Some t)"
proof (cases "o_status order \<in> {Delivered, Cancelled} \<and> t \<in> {Pending, Shipped}")
  case True
  then have "validate_status order t
             = Inl (''Cannot change status from '' @ status_name (o_status order) @ '' to '' @ status_name t)"
    by (auto simp: validate_status_def)
  with True assms show ?thesis
    by (simp add: AdminOrderStatusUpdateView_patch_def UpdateOrderStatusSerializer_def)
next
  case False
  then have v: "validate_status order t = Inr t"
    by (cases "o_status order"; cases t) (simp_all add: validate_status_def)
  from assms(1) have k: "o_id order = order_id" by (auto simp: find_Some_iff)
  obtain db' ch' order' where u: "update_status create_task (db, ch) order t = ((db', ch'), order')"
    by (metis prod.exhaust)
  then have "db' = Order_save db (order\<lparr>o_status := t\<rparr>)"
    using update_status_db [of create_task db ch order t] by simp
  with assms(1) k have "status_of db' order_id = Some t"
    using status_of_Order_save by blast
  with False v u assms show ?thesis
    by (simp add: AdminOrderStatusUpdateView_patch_def UpdateOrderStatusSerializer_def Let_def)
qed

theorem patch_rejects_only_terminal_to_open_witness:
  "AdminOrderStatusUpdateView_patch delivering ''t'' (db_orders, []) 1 (Some ''shipped'')
     = ((db_orders, []), Response 400 (Errors [(''status'', ''Cannot change status from delivered to shipped'')]))
   \<and> status_code (snd (AdminOrderStatusUpdateView_patch delivering ''t'' (db_orders, []) 2 (Some ''shipped''))) = 200
   \<and> status_of (fst (fst (AdminOrderStatusUpdateView_patch delivering ''t'' (db_orders, []) 2 (Some ''shipped'')))) 2
        = Some Shipped"
proof -
  have f1: "find (\<lambda>row. o_id row = 1) (orders db_orders)
            = Some \<lparr>o_id = 1, o_user = 1, o_status = Delivered, o_total_price = 2000,
                     o_shipping_address = ''1 Main St''\<rparr>"
    by (simp add: db_orders_def)
  have f2: "find (\<lambda>row. o_id row = 2) (orders db_orders)
            = Some \<lparr>o_id = 2, o_user = 1, o_status = Pending, o_total_price = 4000,
                     o_shipping_address = ''1 Main St''\<rparr>"
    by (simp add: db_orders_def)
  have t: "to_internal_value ''shipped'' = Some Shipped" by (simp add: to_internal_value_def)
  show ?thesis
    using patch_rejects_only_terminal_to_open [OF f1 t, of delivering "''t''" "[]"]
      patch_rejects_only_terminal_to_open [OF f2 t, of delivering "''t''" "[]"]
    by simp
qed

text \<open>
  C2 as the specification states it fails twice. The delivered order 1 is moved to
  cancelled, a transition out of a terminal state; the pending order 2 is moved straight
  to delivered, which is not among the transitions the specification lists.
\<close>

theorem patch_specified_transitions_counterexample:
  "status_of db_orders 1 = Some Delivered \<and> \<not> spec_transition Delivered Cancelled
   \<and> status_code (snd (AdminOrderStatusUpdateView_patch delivering ''t'' (db_orders, []) 1 (Some ''cancelled''))) = 200
   \<and> status_of (fst (fst (AdminOrderStatusUpdateView_patch delivering ''t'' (db_orders, []) 1 (Some ''cancelled'')))) 1
        = Some Cancelled
   \<and> status_of db_orders 2 = Some Pending \<and> \<not> spec_transition Pending Delivered
   \<and> status_code (snd (AdminOrderStatusUpdateView_patch delivering ''t'' (db_orders, []) 2 (Some ''delivered''))) = 200
   \<and> status_of (fst (fst (AdminOrderStatusUpdateView_patch delivering ''t'' (db_orders, []) 2 (Some ''delivered'')))) 2
        = Some Delivered"
  by (simp add: AdminOrderStatusUpdateView_patch_def UpdateOrderStatusSerializer_def
      to_internal_value_def validate_status_def update_status_def Order_save_def status_of_def
      db_orders_def Let_def delivering_def status_events_def)

section \<open>Notification fan-out: properties\<close>

lemma commit_ignores_transport:
  "fst (fst (CreateOrderView_commit create_task now (db, ch) user address))
     = fst (fst (CreateOrderView_commit create_task' now (db, ch') user address))
   \<and> snd (CreateOrderView_commit create_task now (db, ch) user address)
     = snd (CreateOrderView_commit create_task' now (db, ch') user address)"
  by (simp add: CreateOrderView_commit_def Let_def split: option.splits prod.splits)

lemma post_ignores_transport:
  "fst (fst (CreateOrderView_post create_task now (db, ch) user req))
     = fst (fst (CreateOrderView_post create_task' now (db, ch') user req))
   \<and> snd (CreateOrderView_post create_task now (db, ch) user req)
     = snd (CreateOrderView_post create_task' now (db, ch') user req)"
  using commit_ignores_transport [of create_task now db ch user _ create_task' ch']
  by (simp add: CreateOrderView_post_def split: sum.splits)

lemma update_status_ignores_transport:
  "fst (fst (update_status create_task (db, ch) order t)) = fst (fst (update_status create_task' (db, ch') order t))
   \<and> snd (update_status create_task (db, ch) order t) = snd (update_status create_task' (db, ch') order t)"
  by (simp add: update_status_def Let_def)

lemma patch_ignores_transport:
  "fst (fst (AdminOrderStatusUpdateView_patch create_task now (db, ch) order_id req))
     = fst (fst (AdminOrderStatusUpdateView_patch create_task' now (db, ch') order_id req))
   \<and> snd (AdminOrderStatusUpdateView_patch create_task now (db, ch) order_id req)
     = snd (AdminOrderStatusUpdateView_patch create_task' now (db, ch') order_id req)"
  by (simp add: AdminOrderStatusUpdateView_patch_def update_status_def Let_def
      split: option.splits sum.splits)

text \<open>
  C9. Whatever the transport does with the notifications, raise or deliver, the database
  and the response of an order creation and of a status update are those of the run in
  which every notification is delivered: the failure is swallowed. In particular, with a
  transport on which every call raises, the scenario order is created with 201 and the
  accepted status update answers 200.
\<close>

theorem notification_failure_is_swallowed:
  "fst (fst (CreateOrderView_post create_task now (db, ch) user req))
     = fst (fst (CreateOrderView_post delivering now (db, log) user req))
   \<and> snd (CreateOrderView_post create_task now (db, ch) user req)
     = snd (CreateOrderView_post delivering now (db, log) user req)
   \<and> fst (fst (AdminOrderStatusUpdateView_patch create_task now (db, ch) order_id status_req))
     = fst (fst (AdminOrderStatusUpdateView_patch delivering now (db, log) order_id status_req))
   \<and> snd (AdminOrderStatusUpdateView_patch create_task now (db, ch) order_id status_req)
     = snd (AdminOrderStatusUpdateView_patch delivering now (db, log) order_id status_req)
   \<and> status_code (snd (CreateOrderView_post failing now (db_one_line, ch) alice (Some ''1 Main St''))) = 201
   \<and> status_code (snd (AdminOrderStatusUpdateView_patch failing now (db_orders, ch) 2 (Some ''shipped''))) = 200"
proof -
  have "status_code (snd (CreateOrderView_post failing now (db_one_line, ch) alice (Some ''1 Main St''))) = 201"
    by (simp add: CreateOrderView_post_def CreateOrderView_check_def CreateOrderView_commit_def
        CreateOrderSerializer_def validate_shipping_address_def run_validators_def strip_def isspace_def
        cart_items_of_def Cart_total_price_def Order_create_def OrderItem_create_def
        decrease_stock_def Product_save_def Cart_clear_def
        db_one_line_def alice_def phone_def Let_def)
  moreover
  have "status_code (snd (AdminOrderStatusUpdateView_patch failing now (db_orders, ch) 2 (Some ''shipped''))) = 200"
    by (simp add: AdminOrderStatusUpdateView_patch_def UpdateOrderStatusSerializer_def
        to_internal_value_def validate_status_def update_status_def db_orders_def Let_def)
  ultimately show ?thesis
    using post_ignores_transport [of create_task now db ch user req delivering log]
      patch_ignores_transport [of create_task now db ch order_id status_req delivering log]
    by simp
qed




section \<open>Cache invalidation: properties\<close>








lemma str_int_small: "str_int 0 = ''0''" "str_int 5 = ''5''" "str_int 3600 = ''3600''"
  by (simp_all add: str_int_def str_nat.simps digits_def)




section \<open>Order creation: rejected attempts\<close>

lemma validate_stock_first_short:
  assumes "\<forall>i \<in> set items. products db (ci_product i) \<noteq> None"
  shows "validate_stock db items
         = (case find (\<lambda>i. \<not> row_within_stock db i) items of
              None \<Rightarrow> None
            | Some i \<Rightarrow> Some (insufficient_stock (the (products db (ci_product i)))))"
  using assms
  by (induction items) (auto simp: row_within_stock_def insufficient_stock_def split: option.splits)

text \<open>
  C5. Take a request whose shipping address is valid. If the user has no cart, or the cart
  has no rows, the answer is 400 \<open>Cart is empty\<close>. If some row of the cart asks for more
  than its product's stock, the answer is 400 \<open>Insufficient stock for X. Available: N\<close>,
  where X and N are the name and the stock of the product of the first such row. In both
  cases the database and the channel are the ones before the request: no order, no order
  item, no change of stock, no change of the cart, no notification.
\<close>

theorem rejected_order_changes_nothing:
  assumes "CreateOrderSerializer req = Inr address"
  shows "(user_id user \<notin> carts db \<or> cart_items_of db (user_id user) = []
            \<longrightarrow> CreateOrderView_post create_task now (db, ch) user req
                  = ((db, ch), Response 400 (Error ''Cart is empty'')))
       \<and> (user_id user \<in> carts db
            \<and> (\<forall>i \<in> set (cart_items_of db (user_id user)). products db (ci_product i) \<noteq> None)
            \<and> (\<exists>i \<in> set (cart_items_of db (user_id user)). \<not> row_within_stock db i)
            \<longrightarrow> (\<exists>i p. find (\<lambda>i. \<not> row_within_stock db i) (cart_items_of db (user_id user)) = Some i
                       \<and> products db (ci_product i) = Some p \<and> ci_quantity i > stock p
                       \<and> CreateOrderView_post create_task now (db, ch) user req
                           = ((db, ch), Response 400 (Error (''Insufficient stock for '' @ name p
                                @ ''. Available: '' @ str_int (stock p))))))"
proof (intro conjI impI)
  assume "user_id user \<notin> carts db \<or> cart_items_of db (user_id user) = []"
  with assms show "CreateOrderView_post create_task now (db, ch) user req
                   = ((db, ch), Response 400 (Error ''Cart is empty''))"
    by (auto simp: CreateOrderView_post_def CreateOrderView_check_def)
next
  let ?items = "cart_items_of db (user_id user)"
  assume a: "user_id user \<in> carts db
            \<and> (\<forall>i \<in> set ?items. products db (ci_product i) \<noteq> None)
            \<and> (\<exists>i \<in> set ?items. \<not> row_within_stock db i)"
  then obtain i where i: "find (\<lambda>i. \<not> row_within_stock db i) ?items = Some i"
    by (cases "find (\<lambda>i. \<not> row_within_stock db i) ?items") (auto simp: find_None_iff)
  then have mem: "i \<in> set ?items" and short: "\<not> row_within_stock db i"
    by (auto simp: find_Some_iff)
  with a obtain p where p: "products db (ci_product i) = Some p" by auto
  with short have q: "ci_quantity i > stock p" by (simp add: row_within_stock_def)
  from a i p have "validate_stock db ?items = Some (insufficient_stock p)"
    by (simp add: validate_stock_first_short)
  moreover from mem have "?items \<noteq> []" by auto
  ultimately have "CreateOrderView_post create_task now (db, ch) user req = ((db, ch), insufficient_stock p)"
    using assms a by (simp add: CreateOrderView_post_def CreateOrderView_check_def)
  with i p q show "\<exists>i p. find (\<lambda>i. \<not> row_within_stock db i) ?items = Some i
                       \<and> products db (ci_product i) = Some p \<and> ci_quantity i > stock p
                       \<and> CreateOrderView_post create_task now (db, ch) user req
                           = ((db, ch), Response 400 (Error (''Insufficient stock for '' @ name p
                                @ ''. Available: '' @ str_int (stock p))))"
    by (auto simp: insufficient_stock_def)
qed

lemma address_valid: "CreateOrderSerializer (Some ''1 Main St'') = Inr ''1 Main St''"
  by (simp add: CreateOrderSerializer_def validate_shipping_address_def run_validators_def strip_def isspace_def)

theorem rejected_order_changes_nothing_witness:
  "CreateOrderView_post delivering ''t'' (db_short, []) alice (Some ''1 Main St'')
     = ((db_short, []), Response 400 (Error ''Insufficient stock for Cable. Available: 0''))
   \<and> CreateOrderView_post delivering ''t'' (db_short, []) bob (Some ''1 Main St'')
     = ((db_short, []), Response 400 (Error ''Cart is empty''))"
proof -
  have items: "cart_items_of db_short 1
               = [\<lparr>ci_id = 1, ci_cart = 1, ci_product = 1, ci_quantity = 2\<rparr>,
                  \<lparr>ci_id = 2, ci_cart = 1, ci_product = 2, ci_quantity = 1\<rparr>]"
    by (simp add: cart_items_of_def db_short_def)
  have p: "products db_short 1 = Some phone" "products db_short 2 = Some cable"
    by (simp_all add: db_short_def)
  have s: "str_int 0 = ''0''" by (simp add: str_int_def str_nat.simps digits_def)
  have c: "carts db_short = {1}" by (simp add: db_short_def)
  show ?thesis
    using rejected_order_changes_nothing [OF address_valid, of alice db_short delivering "''t''" "[]"]
      rejected_order_changes_nothing [OF address_valid, of bob db_short delivering "''t''" "[]"]
    by (simp add: items p s c alice_def bob_def row_within_stock_def phone_def cable_def)
qed

section \<open>Order creation: the successful path\<close>

lemma validate_stock_passes:
  "\<forall>i \<in> set items. row_within_stock db i \<Longrightarrow> validate_stock db items = None"
  by (induction items) (auto simp: row_within_stock_def split: option.splits)

lemma sum_total_price_lines:
  "\<forall>i \<in> set items. products db (ci_product i) \<noteq> None
   \<Longrightarrow> sum_total_price db items = Some (sum_list (map (line_total db) items))"
  by (induction items) (auto simp: line_total_def mult.commute)

lemma decrease_stock_frame:
  "cart_items (fst (decrease_stock db pid self q)) = cart_items db"
  "carts (fst (decrease_stock db pid self q)) = carts db"
  "orders (fst (decrease_stock db pid self q)) = orders db"
  "order_items (fst (decrease_stock db pid self q)) = order_items db"
  "order_seq (fst (decrease_stock db pid self q)) = order_seq db"
  "cart_item_seq (fst (decrease_stock db pid self q)) = cart_item_seq db"
  by (simp_all add: decrease_stock_def Product_save_def Let_def)

lemma decrease_stock_products:
  "products (fst (decrease_stock db pid self q))
   = (if q \<le> stock self then (products db)(pid \<mapsto> self\<lparr>stock := stock self - q\<rparr>) else products db)"
  by (simp add: decrease_stock_def Product_save_def Let_def)

lemma create_items_frame:
  "cart_items (fst (create_items db oid items)) = cart_items db
   \<and> carts (fst (create_items db oid items)) = carts db
   \<and> orders (fst (create_items db oid items)) = orders db
   \<and> order_seq (fst (create_items db oid items)) = order_seq db
   \<and> cart_item_seq (fst (create_items db oid items)) = cart_item_seq db"
proof (induction items arbitrary: db)
  case Nil
  then show ?case by simp
next
  case (Cons item items)
  show ?case
  proof (cases "products db (ci_product item)")
    case None
    then show ?thesis by simp
  next
    case (Some product)
    then show ?thesis
      by (simp add: Let_def Cons.IH decrease_stock_frame OrderItem_create_def)
  qed
qed

text \<open>One step of the loop keeps the price of every product, and whether it exists.\<close>

lemma step_keeps_price:
  assumes "products db pid = Some product"
  shows "map_option price
           (products (fst (decrease_stock (OrderItem_create db oid pid q (price product)) pid product q)) k)
         = map_option price (products db k)"
  using assms by (simp add: decrease_stock_products OrderItem_create_def)

lemma create_items_order_items:
  assumes "\<forall>i \<in> set items. products db (ci_product i) \<noteq> None"
  shows "snd (create_items db oid items)
       \<and> order_items (fst (create_items db oid items))
           = order_items db @ map (frozen_line db oid) items"
  using assms
proof (induction items arbitrary: db)
  case Nil
  then show ?case by simp
next
  case (Cons item items)
  from Cons.prems obtain product where p: "products db (ci_product item) = Some product" by auto
  let ?db2 = "fst (decrease_stock (OrderItem_create db oid (ci_product item) (ci_quantity item) (price product))
                     (ci_product item) product (ci_quantity item))"
  have keep: "map_option price (products ?db2 k) = map_option price (products db k)" for k
    using p by (rule step_keeps_price)
  have ex: "\<forall>i \<in> set items. products ?db2 (ci_product i) \<noteq> None"
  proof
    fix i assume "i \<in> set items"
    with Cons.prems have "products db (ci_product i) \<noteq> None" by simp
    with keep [of "ci_product i"] show "products ?db2 (ci_product i) \<noteq> None" by auto
  qed
  have same: "frozen_line ?db2 oid i = frozen_line db oid i" for i
    using keep [of "ci_product i"]
    by (cases "products ?db2 (ci_product i)"; cases "products db (ci_product i)")
       (simp_all add: frozen_line_def)
  have oi: "order_items ?db2 = order_items db @ [frozen_line db oid item]"
    using p by (simp add: decrease_stock_frame OrderItem_create_def frozen_line_def)
  from Cons.IH [OF ex] p oi show ?case by (simp add: Let_def same)
qed

lemma create_items_products:
  assumes "distinct (map ci_product items)" and "\<forall>i \<in> set items. row_within_stock db i"
  shows "products (fst (create_items db oid items)) pid
         = (case find (\<lambda>i. ci_product i = pid) items of
              None \<Rightarrow> products db pid
            | Some i \<Rightarrow> map_option (\<lambda>p. p\<lparr>stock := stock p - ci_quantity i\<rparr>) (products db pid))"
  using assms
proof (induction items arbitrary: db)
  case Nil
  then show ?case by simp
next
  case (Cons item items)
  from Cons.prems obtain product where p: "products db (ci_product item) = Some product"
    and q: "ci_quantity item \<le> stock product"
    by (auto simp: row_within_stock_def split: option.splits)
  let ?db2 = "fst (decrease_stock (OrderItem_create db oid (ci_product item) (ci_quantity item) (price product))
                     (ci_product item) product (ci_quantity item))"
  have pr: "products ?db2 = (products db)(ci_product item \<mapsto> product\<lparr>stock := stock product - ci_quantity item\<rparr>)"
    using q by (simp add: decrease_stock_products OrderItem_create_def)
  from Cons.prems(1) have "ci_product item \<notin> ci_product ` set items" by simp
  then have ne: "ci_product i \<noteq> ci_product item" if "i \<in> set items" for i
    using that by (metis imageI)
  have others: "\<forall>i \<in> set items. row_within_stock ?db2 i"
  proof
    fix i assume i: "i \<in> set items"
    then have "ci_product i \<noteq> ci_product item" by (rule ne)
    moreover from i Cons.prems(2) have "row_within_stock db i" by simp
    ultimately show "row_within_stock ?db2 i" by (simp add: row_within_stock_def pr)
  qed
  from Cons.prems(1) have d: "distinct (map ci_product items)" by simp
  have nf: "find (\<lambda>i. ci_product i = ci_product item) items = None"
    using ne by (simp add: find_None_iff)
  have "products (fst (create_items ?db2 oid items)) pid
        = (case find (\<lambda>i. ci_product i = pid) items of
             None \<Rightarrow> products ?db2 pid
           | Some i \<Rightarrow> map_option (\<lambda>p. p\<lparr>stock := stock p - ci_quantity i\<rparr>) (products ?db2 pid))"
    by (rule Cons.IH [OF d others])
  with p nf show ?case
    by (cases "ci_product item = pid") (auto simp: Let_def pr split: option.splits)
qed

lemma Order_create_frame:
  "products (fst (Order_create db u t a)) = products db"
  "cart_items (fst (Order_create db u t a)) = cart_items db"
  "order_items (fst (Order_create db u t a)) = order_items db"
  "orders (fst (Order_create db u t a)) = orders db @ [snd (Order_create db u t a)]"
  "snd (Order_create db u t a)
   = \<lparr>o_id = order_seq db + 1, o_user = u, o_status = Pending, o_total_price = t, o_shipping_address = a\<rparr>"
  by (simp_all add: Order_create_def Let_def)

text \<open>
  C4. Take a request with a valid shipping address, by a user whose cart exists, is not
  empty, holds each product in one row at most, and asks in every row for no more than the
  product's stock. Then the answer is 201 with the new order, which is pending and belongs
  to the user; its total is the sum over the cart's rows of quantity times the product's
  price; one order item per row is added, with the row's product and quantity and the
  product's price; the stock of each product of the cart is lowered by the row's quantity
  and no other product changes; and the user's cart has no rows afterwards.
\<close>

theorem order_created_from_cart:
  assumes valid: "CreateOrderSerializer req = Inr address"
    and cart: "user_id user \<in> carts db"
    and nonempty: "cart_items_of db (user_id user) \<noteq> []"
    and unique: "distinct (map ci_product (cart_items_of db (user_id user)))"
    and enough: "\<forall>i \<in> set (cart_items_of db (user_id user)). row_within_stock db i"
  shows "\<exists>db' ch' order.
           CreateOrderView_post create_task now (db, ch) user req
             = ((db', ch'), Response 201 (Order_message ''Order created successfully'' order
                                            (order_items_of db' (o_id order))))
         \<and> o_total_price order = sum_list (map (line_total db) (cart_items_of db (user_id user)))
         \<and> o_user order = user_id user \<and> o_status order = Pending
         \<and> o_shipping_address order = address
         \<and> orders db' = orders db @ [order]
         \<and> order_items db'
             = order_items db @ map (frozen_line db (o_id order)) (cart_items_of db (user_id user))
         \<and> (\<forall>i \<in> set (cart_items_of db (user_id user)). \<forall>p. products db (ci_product i) = Some p
               \<longrightarrow> products db' (ci_product i) = Some (p\<lparr>stock := stock p - ci_quantity i\<rparr>))
         \<and> (\<forall>pid. pid \<notin> ci_product ` set (cart_items_of db (user_id user))
               \<longrightarrow> products db' pid = products db pid)
         \<and> cart_items_of db' (user_id user) = []
         \<and> cart_items db' = filter (\<lambda>i. ci_cart i \<noteq> user_id user) (cart_items db)"
proof -
  let ?u = "user_id user"
  let ?items = "cart_items_of db ?u"
  let ?total = "sum_list (map (line_total db) ?items)"
  let ?db1 = "fst (Order_create db ?u ?total address)"
  let ?order = "snd (Order_create db ?u ?total address)"
  let ?db2 = "fst (create_items ?db1 (o_id ?order) ?items)"
  let ?db3 = "Cart_clear ?db2 ?u"
  let ?ch' = "try_notify create_task ch (order_created_events user ?order now)"
  from enough have exists: "\<forall>i \<in> set ?items. products db (ci_product i) \<noteq> None"
    by (auto simp: row_within_stock_def split: option.splits)
  have check: "CreateOrderView_check db user req = Inr address"
    using valid cart nonempty validate_stock_passes [OF enough]
    by (simp add: CreateOrderView_check_def)
  have total: "Cart_total_price db ?u = Some ?total"
    using exists by (simp add: Cart_total_price_def sum_total_price_lines)
  have items1: "cart_items_of ?db1 ?u = ?items"
    by (simp add: cart_items_of_def Order_create_frame)
  have exists1: "\<forall>i \<in> set ?items. products ?db1 (ci_product i) \<noteq> None"
    using exists by (simp add: Order_create_frame)
  have enough1: "\<forall>i \<in> set ?items. row_within_stock ?db1 i"
    using enough by (simp add: row_within_stock_def Order_create_frame)
  have fl: "frozen_line ?db1 k i = frozen_line db k i" for k i
    by (simp add: frozen_line_def Order_create_frame)
  have finished: "snd (create_items ?db1 (o_id ?order) ?items)"
    and oi2: "order_items ?db2 = order_items db @ map (frozen_line db (o_id ?order)) ?items"
    using create_items_order_items [OF exists1, of "o_id ?order"]
    by (simp_all add: fl Order_create_frame)
  have pr2: "products ?db2 pid
             = (case find (\<lambda>i. ci_product i = pid) ?items of
                  None \<Rightarrow> products db pid
                | Some i \<Rightarrow> map_option (\<lambda>p. p\<lparr>stock := stock p - ci_quantity i\<rparr>) (products db pid))" for pid
    using create_items_products [OF unique enough1, of "o_id ?order" pid]
    unfolding Order_create_frame(1) .
  have fr2: "cart_items ?db2 = cart_items db" "orders ?db2 = orders db @ [?order]"
    using create_items_frame [of ?db1 "o_id ?order" ?items] by (simp_all add: Order_create_frame)
  have post: "CreateOrderView_post create_task now (db, ch) user req
              = ((?db3, ?ch'), Response 201 (Order_message ''Order created successfully'' ?order
                                              (order_items_of ?db3 (o_id ?order))))"
    using check total items1 finished
    by (simp add: CreateOrderView_post_def CreateOrderView_commit_def Let_def case_prod_unfold)
  have stock: "products ?db3 (ci_product i) = Some (p\<lparr>stock := stock p - ci_quantity i\<rparr>)"
    if "i \<in> set ?items" and "products db (ci_product i) = Some p" for i p
  proof -
    from that(1) obtain j where j: "find (\<lambda>r. ci_product r = ci_product i) ?items = Some j"
      by (cases "find (\<lambda>r. ci_product r = ci_product i) ?items") (auto simp: find_None_iff)
    then have "j \<in> set ?items" "ci_product j = ci_product i" by (auto simp: find_Some_iff)
    with unique that(1) have "j = i" by (simp add: distinct_map inj_on_def)
    with j that(2) show ?thesis by (simp add: Cart_clear_def pr2)
  qed
  have other: "products ?db3 pid = products db pid" if "pid \<notin> ci_product ` set ?items" for pid
  proof -
    from that have "find (\<lambda>i. ci_product i = pid) ?items = None" by (auto simp: find_None_iff)
    then show ?thesis by (simp add: Cart_clear_def pr2)
  qed
  have c3: "cart_items ?db3 = filter (\<lambda>i. ci_cart i \<noteq> ?u) (cart_items db)"
    by (simp add: Cart_clear_def fr2)
  have "cart_items_of ?db3 ?u = filter (\<lambda>i. ci_cart i = ?u) (cart_items ?db3)"
    by (rule cart_items_of_def)
  also have "\<dots> = []" unfolding c3 by simp
  finally have cleared: "cart_items_of ?db3 ?u = []" .
  have hd: "o_total_price ?order = ?total" "o_user ?order = ?u" "o_status ?order = Pending"
    "o_shipping_address ?order = address"
    by (simp_all add: Order_create_frame)
  have rows: "orders ?db3 = orders db @ [?order]"
    "order_items ?db3 = order_items db @ map (frozen_line db (o_id ?order)) ?items"
    by (simp_all add: Cart_clear_def fr2 oi2)
  from post hd rows stock other cleared c3 show ?thesis by blast
qed

theorem order_created_from_cart_witness:
  "\<exists>db' ch' order.
     CreateOrderView_post delivering ''t'' (db_one_line, []) alice (Some ''1 Main St'')
       = ((db', ch'), Response 201 (Order_message ''Order created successfully'' order
                                      (order_items_of db' (o_id order))))
     \<and> o_total_price order = 2000
     \<and> order_items db' = [\<lparr>oi_order = o_id order, oi_product = 1, oi_quantity = 1, oi_price = 2000\<rparr>]
     \<and> products db' 1 = Some (phone\<lparr>stock := 4\<rparr>)
     \<and> cart_items_of db' 1 = []"
proof -
  have items: "cart_items_of db_one_line (user_id alice)
               = [\<lparr>ci_id = 1, ci_cart = 1, ci_product = 1, ci_quantity = 1\<rparr>]"
    by (simp add: cart_items_of_def db_one_line_def alice_def)
  have p: "products db_one_line 1 = Some phone" by (simp add: db_one_line_def)
  have h2: "user_id alice \<in> carts db_one_line" by (simp add: db_one_line_def alice_def)
  have h3: "cart_items_of db_one_line (user_id alice) \<noteq> []" by (simp add: items)
  have h4: "distinct (map ci_product (cart_items_of db_one_line (user_id alice)))"
    by (simp add: items)
  have h5: "\<forall>i \<in> set (cart_items_of db_one_line (user_id alice)). row_within_stock db_one_line i"
    by (simp add: items row_within_stock_def p phone_def)
  have e: "order_items db_one_line = []" "user_id alice = 1" "stock phone = 5" "price phone = 2000"
    by (simp_all add: db_one_line_def alice_def phone_def)
  have items1: "cart_items_of db_one_line 1 = [\<lparr>ci_id = 1, ci_cart = 1, ci_product = 1, ci_quantity = 1\<rparr>]"
    using items by (simp add: e)
  from order_created_from_cart [OF address_valid h2 h3 h4 h5, of delivering "''t''" "[]"]
  obtain db' ch' order where
    r: "CreateOrderView_post delivering ''t'' (db_one_line, []) alice (Some ''1 Main St'')
          = ((db', ch'), Response 201 (Order_message ''Order created successfully'' order
                                         (order_items_of db' (o_id order))))"
    and t: "o_total_price order = sum_list (map (line_total db_one_line) (cart_items_of db_one_line (user_id alice)))"
    and oi: "order_items db' = order_items db_one_line
               @ map (frozen_line db_one_line (o_id order)) (cart_items_of db_one_line (user_id alice))"
    and st: "\<forall>i \<in> set (cart_items_of db_one_line (user_id alice)). \<forall>p. products db_one_line (ci_product i) = Some p
               \<longrightarrow> products db' (ci_product i) = Some (p\<lparr>stock := stock p - ci_quantity i\<rparr>)"
    and cl: "cart_items_of db' (user_id alice) = []"
    by blast
  from t have "o_total_price order = 2000" by (simp add: items1 line_total_def p e)
  moreover from oi have "order_items db' = [\<lparr>oi_order = o_id order, oi_product = 1, oi_quantity = 1, oi_price = 2000\<rparr>]"
    by (simp add: items1 frozen_line_def p e)
  moreover from st have "products db' 1 = Some (phone\<lparr>stock := 4\<rparr>)" by (simp add: items1 p e)
  moreover from cl have "cart_items_of db' 1 = []" by (simp add: e)
  ultimately show ?thesis using r by blast
qed

section \<open>Order creation: two requests racing for the last unit\<close>

text \<open>
  C1. One phone is in stock, and Alice's and Bob's carts hold one phone each. Both requests
  pass the stock validation on this database. Alice's request then runs to its end and takes
  the phone. When Bob's request goes on, \<open>decrease_stock\<close> returns \<open>False\<close>; the view
  drops that result: Bob's order and its item are stored, his cart is cleared, the stock
  stays at zero and the answer is 201. Nothing is rolled back and no stock conflict is
  reported.
\<close>

theorem raced_order_is_not_rolled_back:
  "CreateOrderView_check db_race alice (Some ''1 Main St'') = Inr ''1 Main St''
   \<and> CreateOrderView_check db_race bob (Some ''1 Main St'') = Inr ''1 Main St''
   \<and> (case CreateOrderView_commit delivering ''t'' (db_race, []) alice ''1 Main St'' of
        ((db1, ch1), r1) \<Rightarrow>
          status_code r1 = 201
          \<and> map_option stock (products db1 1) = Some 0
          \<and> tryDecrement db1 1 1 = Some (db1, False)
          \<and> (case CreateOrderView_commit delivering ''t'' (db1, ch1) bob ''1 Main St'' of
               ((db2, ch2), r2) \<Rightarrow>
                 status_code r2 = 201
                 \<and> map o_user (orders db2) = [1, 2]
                 \<and> order_items db2 = [\<lparr>oi_order = 1, oi_product = 1, oi_quantity = 1, oi_price = 2000\<rparr>,
                                      \<lparr>oi_order = 2, oi_product = 1, oi_quantity = 1, oi_price = 2000\<rparr>]
                 \<and> map_option stock (products db2 1) = Some 0
                 \<and> cart_items db2 = []))"
  by (simp add: CreateOrderView_check_def CreateOrderView_commit_def
      CreateOrderSerializer_def validate_shipping_address_def run_validators_def strip_def isspace_def
      cart_items_of_def Cart_total_price_def Order_create_def OrderItem_create_def
      decrease_stock_def Product_save_def Cart_clear_def tryDecrement_def
      db_race_def alice_def bob_def last_phone_def Let_def)

section \<open>Cart aggregate: the cart-stock invariant\<close>

lemma cart_stock_inv_cong:
  "products db' = products db \<Longrightarrow> cart_items db' = cart_items db
   \<Longrightarrow> cart_stock_inv db' = cart_stock_inv db"
  by (simp add: cart_stock_inv_def row_within_stock_def [abs_def])

lemma write_row_all: "list_all P rows \<Longrightarrow> P r \<Longrightarrow> list_all P (write_row r rows)"
  by (induction rows) auto

lemma CartItem_save_row:
  "ci_quantity (snd (CartItem_save db self product)) = min (ci_quantity self) (stock product)"
  "ci_id (snd (CartItem_save db self product)) = ci_id self"
  "ci_cart (snd (CartItem_save db self product)) = ci_cart self"
  "ci_product (snd (CartItem_save db self product)) = ci_product self"
  by (simp_all add: CartItem_save_def Let_def)

lemma CartItem_save_db:
  "fst (CartItem_save db self product)
   = db\<lparr>cart_items := write_row (snd (CartItem_save db self product)) (cart_items db)\<rparr>"
  by (simp add: CartItem_save_def Let_def)

lemma CartItem_save_inv:
  assumes "cart_stock_inv db" and "products db (ci_product self) = Some product"
  shows "cart_stock_inv (fst (CartItem_save db self product))"
proof -
  let ?r = "snd (CartItem_save db self product)"
  have "row_within_stock db ?r"
    using assms(2) by (simp add: row_within_stock_def CartItem_save_row)
  with assms(1) have "list_all (row_within_stock db) (write_row ?r (cart_items db))"
    by (simp add: cart_stock_inv_def write_row_all)
  then show ?thesis
    by (subst CartItem_save_db) (simp add: cart_stock_inv_def row_within_stock_def [abs_def])
qed

lemma AddToCartView_post_inv:
  assumes "cart_stock_inv db"
  shows "cart_stock_inv (fst (AddToCartView_post db user req))"
proof (cases "AddToCartSerializer db req")
  case (Inl errors)
  with assms show ?thesis by (simp add: AddToCartView_post_def)
next
  case (Inr v)
  obtain pid q where v: "v = (pid, q)" by (cases v)
  let ?db1 = "Cart_get_or_create db (user_id user)"
  have inv1: "cart_stock_inv ?db1"
    using assms cart_stock_inv_cong [of ?db1 db] by (simp add: Cart_get_or_create_def)
  have p1: "products ?db1 = products db" by (simp add: Cart_get_or_create_def)
  show ?thesis
  proof (cases "products db pid")
    case None
    with Inr v inv1 show ?thesis by (simp add: AddToCartView_post_def Let_def p1)
  next
    case (Some product)
    show ?thesis
    proof (cases "\<not> is_active product \<or> stock product < q")
      case True
      with Inr v inv1 Some show ?thesis by (auto simp: AddToCartView_post_def Let_def p1)
    next
      case False
      show ?thesis
      proof (cases "find (\<lambda>i. ci_cart i = user_id user \<and> ci_product i = pid) (cart_items ?db1)")
        case None
        let ?fresh = "\<lparr>ci_id = cart_item_seq ?db1 + 1, ci_cart = user_id user, ci_product = pid, ci_quantity = q\<rparr>"
        let ?dbs = "?db1\<lparr>cart_item_seq := cart_item_seq ?db1 + 1\<rparr>"
        have "cart_stock_inv ?dbs" using inv1 cart_stock_inv_cong [of ?dbs ?db1] by simp
        moreover have "products ?dbs (ci_product ?fresh) = Some product" using Some by (simp add: p1)
        ultimately have "cart_stock_inv (fst (CartItem_save ?dbs ?fresh product))"
          by (rule CartItem_save_inv)
        with Inr v Some False None show ?thesis
          by (simp add: AddToCartView_post_def CartItem_get_or_create_def Let_def p1 case_prod_unfold)
      next
        case (Some cart_item)
        then have cp: "ci_product cart_item = pid" by (auto simp: find_Some_iff)
        let ?q2 = "if ci_quantity cart_item + q > stock product then stock product else ci_quantity cart_item + q"
        have "products ?db1 (ci_product (cart_item\<lparr>ci_quantity := ?q2\<rparr>)) = Some product"
          using \<open>products db pid = Some product\<close> cp by (simp add: p1)
        with inv1 have "cart_stock_inv (fst (CartItem_save ?db1 (cart_item\<lparr>ci_quantity := ?q2\<rparr>) product))"
          by (rule CartItem_save_inv)
        with Inr v \<open>products db pid = Some product\<close> False Some show ?thesis
          by (simp add: AddToCartView_post_def CartItem_get_or_create_def Let_def p1)
      qed
    qed
  qed
qed

lemma UpdateCartItemView_patch_inv:
  assumes "cart_stock_inv db"
  shows "cart_stock_inv (fst (UpdateCartItemView_patch db user item_id req))"
proof (cases "find (\<lambda>i. ci_id i = item_id \<and> ci_cart i = user_id user) (cart_items db)")
  case None
  with assms show ?thesis by (simp add: UpdateCartItemView_patch_def)
next
  case (Some cart_item)
  show ?thesis
  proof (cases "products db (ci_product cart_item)")
    case None
    with Some assms show ?thesis
      by (simp add: UpdateCartItemView_patch_def split: option.splits sum.splits)
  next
    case p: (Some product)
    have "cart_stock_inv (fst (CartItem_save db (cart_item\<lparr>ci_quantity := v\<rparr>) product))" for v
    proof -
      from p have "products db (ci_product (cart_item\<lparr>ci_quantity := v\<rparr>)) = Some product" by simp
      with assms show ?thesis by (rule CartItem_save_inv)
    qed
    with Some p assms show ?thesis
      by (simp add: UpdateCartItemView_patch_def Let_def split: option.splits sum.splits)
  qed
qed

section \<open>Cart aggregate: adding a product\<close>

lemma write_row_existing:
  assumes "distinct (map ci_id rows)" and "find P rows = Some item" and "ci_id r = ci_id item" and "P r"
  shows "find P (write_row r rows) = Some r
       \<and> filter (\<lambda>i. \<not> P i) (write_row r rows) = filter (\<lambda>i. \<not> P i) rows"
  using assms
proof (induction rows)
  case Nil
  then show ?case by simp
next
  case (Cons x rows)
  show ?case
  proof (cases "P x")
    case True
    with Cons.prems show ?thesis by simp
  next
    case False
    with Cons.prems have f: "find P rows = Some item" by simp
    then have "item \<in> set rows" by (auto simp: find_Some_iff)
    with Cons.prems(1) have "ci_id x \<noteq> ci_id item" by (metis distinct.simps(2) imageI list.simps(9) set_map)
    moreover from Cons.prems(1) have "distinct (map ci_id rows)" by simp
    ultimately show ?thesis using Cons.IH f Cons.prems(3,4) False by simp
  qed
qed

lemma write_row_fresh:
  assumes "find P rows = None" and "\<forall>x \<in> set rows. ci_id x \<noteq> ci_id r" and "P r"
  shows "find P (write_row r rows) = Some r
       \<and> filter (\<lambda>i. \<not> P i) (write_row r rows) = filter (\<lambda>i. \<not> P i) rows"
  using assms by (induction rows) (auto split: if_splits)

lemma serializer_rejects_product:
  assumes "req_product_id req = Some pid" and "validate_product_id db pid = Inl e"
  shows "\<exists>errs. AddToCartView_post db user req = (db, Response 400 (Errors ((''product_id'', e) # errs)))"
  using assms
  by (cases "quantity_field db req")
     (simp_all add: AddToCartView_post_def AddToCartSerializer_def product_id_field_def)

lemma serializer_accepts:
  assumes "req_product_id req = Some pid" and "products db pid = Some p" and "is_active p"
    and "1 \<le> requested_quantity req" and "requested_quantity req \<le> stock p"
  shows "AddToCartSerializer db req = Inr (pid, requested_quantity req)"
proof -
  from assms have "in_stock p" by (simp add: in_stock_def)
  with assms have "product_id_field db req = Inr pid"
    by (simp add: product_id_field_def validate_product_id_def)
  moreover from assms have "quantity_field db req = Inr (requested_quantity req)"
    by (cases "req_quantity req")
       (simp_all add: quantity_field_def validate_quantity_def requested_quantity_def)
  ultimately show ?thesis by (simp add: AddToCartSerializer_def)
qed

lemma add_accepted:
  assumes keys: "cart_item_keys_ok db" and pid: "req_product_id req = Some pid"
    and p: "products db pid = Some p" and act: "is_active p"
    and lo: "1 \<le> requested_quantity req" and hi: "requested_quantity req \<le> stock p"
  shows "\<exists>db'. AddToCartView_post db user req
               = (db', Response 200 (Cart_message ''Product added to cart successfully''
                                       (cart_items_of db' (user_id user))))
           \<and> quantity_in_cart db' (user_id user) pid
               = min (quantity_in_cart db (user_id user) pid + requested_quantity req) (stock p)
           \<and> filter (\<lambda>i. \<not> (ci_cart i = user_id user \<and> ci_product i = pid)) (cart_items db')
               = filter (\<lambda>i. \<not> (ci_cart i = user_id user \<and> ci_product i = pid)) (cart_items db)
           \<and> products db' = products db
           \<and> carts db' = insert (user_id user) (carts db)"
proof -
  let ?u = "user_id user"
  let ?q = "requested_quantity req"
  let ?P = "\<lambda>i. ci_cart i = ?u \<and> ci_product i = pid"
  let ?db1 = "Cart_get_or_create db ?u"
  have ser: "AddToCartSerializer db req = Inr (pid, ?q)"
    using pid p act lo hi by (rule serializer_accepts)
  have d1: "products ?db1 = products db" "cart_items ?db1 = cart_items db"
    "carts ?db1 = insert ?u (carts db)" "cart_item_seq ?db1 = cart_item_seq db"
    by (simp_all add: Cart_get_or_create_def)
  show ?thesis
  proof (cases "find ?P (cart_items db)")
    case None
    let ?fresh = "\<lparr>ci_id = cart_item_seq db + 1, ci_cart = ?u, ci_product = pid, ci_quantity = ?q\<rparr>"
    let ?db' = "?db1\<lparr>cart_item_seq := cart_item_seq db + 1, cart_items := write_row ?fresh (cart_items db)\<rparr>"
    have save: "CartItem_save (?db1\<lparr>cart_item_seq := cart_item_seq db + 1\<rparr>) ?fresh p = (?db', ?fresh)"
      using hi by (simp add: CartItem_save_def Let_def d1)
    have post: "AddToCartView_post db user req
                = (?db', Response 200 (Cart_message ''Product added to cart successfully''
                                         (cart_items_of ?db' ?u)))"
      using ser p act hi None save
      by (simp add: AddToCartView_post_def CartItem_get_or_create_def Let_def d1)
    from keys have "\<forall>x \<in> set (cart_items db). ci_id x \<noteq> ci_id ?fresh"
      by (auto simp: cart_item_keys_ok_def list_all_iff)
    with None have w: "find ?P (write_row ?fresh (cart_items db)) = Some ?fresh
                      \<and> filter (\<lambda>i. \<not> ?P i) (write_row ?fresh (cart_items db))
                          = filter (\<lambda>i. \<not> ?P i) (cart_items db)"
      by (intro write_row_fresh) simp_all
    from None have "quantity_in_cart db ?u pid = 0" by (simp add: quantity_in_cart_def)
    moreover from w have "quantity_in_cart ?db' ?u pid = ?q" by (simp add: quantity_in_cart_def)
    ultimately have "quantity_in_cart ?db' ?u pid = min (quantity_in_cart db ?u pid + ?q) (stock p)"
      using hi by simp
    moreover from w have "filter (\<lambda>i. \<not> ?P i) (cart_items ?db') = filter (\<lambda>i. \<not> ?P i) (cart_items db)"
      by simp
    moreover have "products ?db' = products db" "carts ?db' = insert ?u (carts db)"
      by (simp_all add: d1)
    ultimately show ?thesis using post by blast
  next
    case (Some item)
    let ?q2 = "min (ci_quantity item + ?q) (stock p)"
    let ?r = "item\<lparr>ci_quantity := ?q2\<rparr>"
    let ?db' = "?db1\<lparr>cart_items := write_row ?r (cart_items db)\<rparr>"
    have q2: "(if ci_quantity item + ?q > stock p then stock p else ci_quantity item + ?q) = ?q2"
      by (simp add: min_def)
    have save: "fst (CartItem_save ?db1 ?r p) = ?db'"
      by (simp add: CartItem_save_def Let_def d1)
    have post: "AddToCartView_post db user req
                = (?db', Response 200 (Cart_message ''Product added to cart successfully''
                                         (cart_items_of ?db' ?u)))"
      using ser p act hi Some save
      by (simp add: AddToCartView_post_def CartItem_get_or_create_def Let_def d1 q2)
    from Some have Pi: "?P item" by (auto simp: find_Some_iff)
    from keys have "distinct (map ci_id (cart_items db))" by (simp add: cart_item_keys_ok_def)
    then have w: "find ?P (write_row ?r (cart_items db)) = Some ?r
                 \<and> filter (\<lambda>i. \<not> ?P i) (write_row ?r (cart_items db))
                     = filter (\<lambda>i. \<not> ?P i) (cart_items db)"
      using Some Pi by (intro write_row_existing [where item = item]) simp_all
    from Some have "quantity_in_cart db ?u pid = ci_quantity item" by (simp add: quantity_in_cart_def)
    moreover from w have "quantity_in_cart ?db' ?u pid = ?q2" by (simp add: quantity_in_cart_def)
    ultimately have "quantity_in_cart ?db' ?u pid = min (quantity_in_cart db ?u pid + ?q) (stock p)"
      by simp
    moreover from w have "filter (\<lambda>i. \<not> ?P i) (cart_items ?db') = filter (\<lambda>i. \<not> ?P i) (cart_items db)"
      by simp
    moreover have "products ?db' = products db" "carts ?db' = insert ?u (carts db)"
      by (simp_all add: d1)
    ultimately show ?thesis using post by blast
  qed
qed

lemma add_above_stock_refused:
  assumes pid: "req_product_id req = Some pid"
    and p: "products db pid = Some p" and act: "is_active p" and pos: "0 < stock p"
    and hi: "stock p < requested_quantity req"
  shows "status_code (snd (AddToCartView_post db user req)) = 400
       \<and> cart_items (fst (AddToCartView_post db user req)) = cart_items db
       \<and> products (fst (AddToCartView_post db user req)) = products db
       \<and> (pid \<noteq> 0 \<longrightarrow> AddToCartView_post db user req
              = (db, Response 400 (Errors [(''quantity'',
                   ''Only '' @ str_int (stock p) @ '' items available in stock'')])))"
proof -
  let ?q = "requested_quantity req"
  from pos have "in_stock p" by (simp add: in_stock_def)
  with pid p act have pf: "product_id_field db req = Inr pid"
    by (simp add: product_id_field_def validate_product_id_def)
  from pos hi have one: "\<not> ?q < 1" by simp
  show ?thesis
  proof (cases "pid = 0")
    case True
    with pid p have "validate_quantity db (req_product_id req) ?q = Inr ?q"
      by (simp add: validate_quantity_def)
    with one have "quantity_field db req = Inr ?q"
      by (cases "req_quantity req") (simp_all add: quantity_field_def requested_quantity_def)
    with pf have "AddToCartSerializer db req = Inr (pid, ?q)" by (simp add: AddToCartSerializer_def)
    with p act hi True show ?thesis
      by (simp add: AddToCartView_post_def Let_def Cart_get_or_create_def)
  next
    case False
    with pid p hi have "validate_quantity db (req_product_id req) ?q
                        = Inl (''Only '' @ str_int (stock p) @ '' items available in stock'')"
      by (simp add: validate_quantity_def)
    with one have "quantity_field db req = Inl (''Only '' @ str_int (stock p) @ '' items available in stock'')"
      by (cases "req_quantity req") (simp_all add: quantity_field_def requested_quantity_def)
    with pf have "AddToCartSerializer db req
                  = Inl [(''quantity'', ''Only '' @ str_int (stock p) @ '' items available in stock'')]"
      by (simp add: AddToCartSerializer_def)
    then show ?thesis by (simp add: AddToCartView_post_def)
  qed
qed

lemma add_below_one_refused:
  assumes "requested_quantity req < 1"
  shows "\<exists>errs. AddToCartView_post db user req = (db, Response 400 (Errors errs))
           \<and> (''quantity'', ''Ensure this value is greater than or equal to 1.'') \<in> set errs"
proof -
  from assms obtain q where q: "req_quantity req = Some q" "q < 1"
    by (cases "req_quantity req") (simp_all add: requested_quantity_def)
  then have "quantity_field db req = Inl ''Ensure this value is greater than or equal to 1.''"
    by (simp add: quantity_field_def)
  then show ?thesis
    by (cases "product_id_field db req") (simp_all add: AddToCartView_post_def AddToCartSerializer_def)
qed

text \<open>
  C6 as the specification states it fails: a request for more than the stock is not cut
  down to the stock, it is refused. Five phones are in stock. Alice, whose cart holds one
  phone, asks for six and Bob, whose cart is empty, asks for six: both get 400, the database
  is the one before and Alice's cart still holds one phone.
\<close>

theorem add_above_stock_is_refused_counterexample:
  "AddToCartView_post db_one_line alice \<lparr>req_product_id = Some 1, req_quantity = Some 6\<rparr>
     = (db_one_line, Response 400 (Errors [(''quantity'', ''Only 5 items available in stock'')]))
   \<and> AddToCartView_post db_one_line bob \<lparr>req_product_id = Some 1, req_quantity = Some 6\<rparr>
     = (db_one_line, Response 400 (Errors [(''quantity'', ''Only 5 items available in stock'')]))
   \<and> quantity_in_cart db_one_line 1 1 = 1 \<and> quantity_in_cart db_one_line 2 1 = 0
   \<and> map_option stock (products db_one_line 1) = Some 5"
  by (simp add: AddToCartView_post_def AddToCartSerializer_def product_id_field_def
      quantity_field_def validate_product_id_def validate_quantity_def in_stock_def
      quantity_in_cart_def db_one_line_def phone_def str_int_small)

text \<open>
  C6, as the code has it. Take a request that names a product. If the product does not
  exist or is inactive, the answer is 400 with \<open>Product not found\<close> for the field
  \<open>product_id\<close>; if it is active with no stock, 400 with \<open>Product is out of stock\<close>; in both
  cases the database is unchanged. For an active product in stock: a quantity below 1 is
  refused with 400 and an unchanged database; a quantity above the stock is refused with
  400, no cart row and no product changes, and for a product id other than 0 the database
  is unchanged and the message is \<open>Only N items available in stock\<close>; a quantity from 1 up
  to the stock (1 by default) is accepted with 200 and the cart: the quantity that the cart
  holds of the product is the old quantity (0 when the cart had no row for it) plus the
  requested one, cut down to the stock, and no other cart row and no product changes.
\<close>

theorem add_to_cart_refuses_or_increments:
  assumes "cart_item_keys_ok db" and "req_product_id req = Some pid"
  shows "(products db pid = None \<or> (\<exists>p. products db pid = Some p \<and> \<not> is_active p)
            \<longrightarrow> (\<exists>errs. AddToCartView_post db user req
                            = (db, Response 400 (Errors ((''product_id'', ''Product not found'') # errs)))))
       \<and> (\<forall>p. products db pid = Some p \<and> is_active p \<and> stock p \<le> 0
            \<longrightarrow> (\<exists>errs. AddToCartView_post db user req
                            = (db, Response 400 (Errors ((''product_id'', ''Product is out of stock'') # errs)))))
       \<and> (requested_quantity req < 1
            \<longrightarrow> (\<exists>errs. AddToCartView_post db user req = (db, Response 400 (Errors errs))
                       \<and> (''quantity'', ''Ensure this value is greater than or equal to 1.'') \<in> set errs))
       \<and> (\<forall>p. products db pid = Some p \<and> is_active p \<and> 0 < stock p \<and> stock p < requested_quantity req
            \<longrightarrow> status_code (snd (AddToCartView_post db user req)) = 400
                \<and> cart_items (fst (AddToCartView_post db user req)) = cart_items db
                \<and> products (fst (AddToCartView_post db user req)) = products db
                \<and> (pid \<noteq> 0 \<longrightarrow> AddToCartView_post db user req
                       = (db, Response 400 (Errors [(''quantity'',
                            ''Only '' @ str_int (stock p) @ '' items available in stock'')]))))
       \<and> (\<forall>p. products db pid = Some p \<and> is_active p
                \<and> 1 \<le> requested_quantity req \<and> requested_quantity req \<le> stock p
            \<longrightarrow> (\<exists>db'. AddToCartView_post db user req
                            = (db', Response 200 (Cart_message ''Product added to cart successfully''
                                                    (cart_items_of db' (user_id user))))
                       \<and> quantity_in_cart db' (user_id user) pid
                           = min (quantity_in_cart db (user_id user) pid + requested_quantity req) (stock p)
                       \<and> filter (\<lambda>i. \<not> (ci_cart i = user_id user \<and> ci_product i = pid)) (cart_items db')
                           = filter (\<lambda>i. \<not> (ci_cart i = user_id user \<and> ci_product i = pid)) (cart_items db)
                       \<and> products db' = products db
                       \<and> carts db' = insert (user_id user) (carts db)))"
proof (intro conjI allI impI)
  assume "products db pid = None \<or> (\<exists>p. products db pid = Some p \<and> \<not> is_active p)"
  then have "validate_product_id db pid = Inl ''Product not found''"
    by (auto simp: validate_product_id_def)
  with assms(2) show "\<exists>errs. AddToCartView_post db user req
                        = (db, Response 400 (Errors ((''product_id'', ''Product not found'') # errs)))"
    by (rule serializer_rejects_product)
next
  fix p assume "products db pid = Some p \<and> is_active p \<and> stock p \<le> 0"
  then have "validate_product_id db pid = Inl ''Product is out of stock''"
    by (simp add: validate_product_id_def in_stock_def)
  with assms(2) show "\<exists>errs. AddToCartView_post db user req
                        = (db, Response 400 (Errors ((''product_id'', ''Product is out of stock'') # errs)))"
    by (rule serializer_rejects_product)
next
  assume "requested_quantity req < 1"
  then show "\<exists>errs. AddToCartView_post db user req = (db, Response 400 (Errors errs))
               \<and> (''quantity'', ''Ensure this value is greater than or equal to 1.'') \<in> set errs"
    by (rule add_below_one_refused)
next
  fix p assume a: "products db pid = Some p \<and> is_active p \<and> 0 < stock p \<and> stock p < requested_quantity req"
  then have h: "products db pid = Some p" "is_active p" "0 < stock p" "stock p < requested_quantity req"
    by simp_all
  note r = add_above_stock_refused [OF assms(2) h, of user]
  from r show "status_code (snd (AddToCartView_post db user req)) = 400" by (rule conjunct1)
  from r show "cart_items (fst (AddToCartView_post db user req)) = cart_items db"
    by (rule conjunct2 [THEN conjunct1])
  from r show "products (fst (AddToCartView_post db user req)) = products db"
    by (rule conjunct2 [THEN conjunct2, THEN conjunct1])
  assume "pid \<noteq> 0"
  with r show "AddToCartView_post db user req
                 = (db, Response 400 (Errors [(''quantity'',
                      ''Only '' @ str_int (stock p) @ '' items available in stock'')]))"
    by blast
next
  fix p assume a: "products db pid = Some p \<and> is_active p
                   \<and> 1 \<le> requested_quantity req \<and> requested_quantity req \<le> stock p"
  then have "products db pid = Some p" "is_active p" "1 \<le> requested_quantity req"
    "requested_quantity req \<le> stock p" by simp_all
  with assms show "\<exists>db'. AddToCartView_post db user req
                            = (db', Response 200 (Cart_message ''Product added to cart successfully''
                                                    (cart_items_of db' (user_id user))))
                       \<and> quantity_in_cart db' (user_id user) pid
                           = min (quantity_in_cart db (user_id user) pid + requested_quantity req) (stock p)
                       \<and> filter (\<lambda>i. \<not> (ci_cart i = user_id user \<and> ci_product i = pid)) (cart_items db')
                           = filter (\<lambda>i. \<not> (ci_cart i = user_id user \<and> ci_product i = pid)) (cart_items db)
                       \<and> products db' = products db
                       \<and> carts db' = insert (user_id user) (carts db)"
    by (rule add_accepted)
qed

theorem add_to_cart_refuses_or_increments_witness:
  "(\<exists>errs. AddToCartView_post db_short alice \<lparr>req_product_id = Some 2, req_quantity = Some 1\<rparr>
              = (db_short, Response 400 (Errors ((''product_id'', ''Product is out of stock'') # errs))))
   \<and> (\<exists>errs. AddToCartView_post db_short alice \<lparr>req_product_id = Some 7, req_quantity = None\<rparr>
              = (db_short, Response 400 (Errors ((''product_id'', ''Product not found'') # errs))))
   \<and> quantity_in_cart db_one_line 1 1 = 1
   \<and> quantity_in_cart (fst (AddToCartView_post db_one_line alice
                               \<lparr>req_product_id = Some 1, req_quantity = Some 5\<rparr>)) 1 1 = 5
   \<and> quantity_in_cart (fst (AddToCartView_post db_one_line bob
                               \<lparr>req_product_id = Some 1, req_quantity = None\<rparr>)) 2 1 = 1
   \<and> status_code (snd (AddToCartView_post db_one_line alice
                          \<lparr>req_product_id = Some 1, req_quantity = Some 6\<rparr>)) = 400
   \<and> (\<exists>errs. AddToCartView_post db_one_line alice \<lparr>req_product_id = Some 1, req_quantity = Some 0\<rparr>
              = (db_one_line, Response 400 (Errors errs)))"
proof -
  have k1: "cart_item_keys_ok db_short" by (simp add: cart_item_keys_ok_def db_short_def)
  have k2: "cart_item_keys_ok db_one_line" by (simp add: cart_item_keys_ok_def db_one_line_def)
  have r1: "req_product_id \<lparr>req_product_id = Some 2, req_quantity = Some 1\<rparr> = Some 2" by simp
  have r2: "req_product_id \<lparr>req_product_id = Some 7, req_quantity = None\<rparr> = Some 7" by simp
  have r3: "req_product_id \<lparr>req_product_id = Some 1, req_quantity = Some 5\<rparr> = Some 1" by simp
  have r4: "req_product_id \<lparr>req_product_id = Some 1, req_quantity = None\<rparr> = Some 1" by simp
  have r5: "req_product_id \<lparr>req_product_id = Some 1, req_quantity = Some 6\<rparr> = Some 1" by simp
  have r6: "req_product_id \<lparr>req_product_id = Some 1, req_quantity = Some 0\<rparr> = Some 1" by simp
  have p: "products db_short 2 = Some cable" "products db_short 7 = None"
    "products db_one_line 1 = Some phone"
    by (simp_all add: db_short_def db_one_line_def)
  have f: "is_active cable" "stock cable = 0" "is_active phone" "stock phone = 5"
    by (simp_all add: cable_def phone_def)
  have u: "user_id alice = 1" "user_id bob = 2" by (simp_all add: alice_def bob_def)
  have q: "quantity_in_cart db_one_line 1 1 = 1" "quantity_in_cart db_one_line 2 1 = 0"
    by (simp_all add: quantity_in_cart_def db_one_line_def)
  have n: "requested_quantity \<lparr>req_product_id = Some 1, req_quantity = Some 5\<rparr> = 5"
    "requested_quantity \<lparr>req_product_id = Some 1, req_quantity = None\<rparr> = 1"
    "requested_quantity \<lparr>req_product_id = Some 1, req_quantity = Some 6\<rparr> = 6"
    "requested_quantity \<lparr>req_product_id = Some 1, req_quantity = Some 0\<rparr> = 0"
    by (simp_all add: requested_quantity_def)
  from add_to_cart_refuses_or_increments [OF k1 r1, of alice] p f
  have a: "\<exists>errs. AddToCartView_post db_short alice \<lparr>req_product_id = Some 2, req_quantity = Some 1\<rparr>
              = (db_short, Response 400 (Errors ((''product_id'', ''Product is out of stock'') # errs)))"
    by simp
  from add_to_cart_refuses_or_increments [OF k1 r2, of alice] p
  have b: "\<exists>errs. AddToCartView_post db_short alice \<lparr>req_product_id = Some 7, req_quantity = None\<rparr>
              = (db_short, Response 400 (Errors ((''product_id'', ''Product not found'') # errs)))"
    by simp
  from add_to_cart_refuses_or_increments [OF k2 r3, of alice] p f n q u
  have c: "quantity_in_cart (fst (AddToCartView_post db_one_line alice
                               \<lparr>req_product_id = Some 1, req_quantity = Some 5\<rparr>)) 1 1 = 5"
    by auto
  from add_to_cart_refuses_or_increments [OF k2 r4, of bob] p f n q u
  have d: "quantity_in_cart (fst (AddToCartView_post db_one_line bob
                               \<lparr>req_product_id = Some 1, req_quantity = None\<rparr>)) 2 1 = 1"
    by auto
  from add_to_cart_refuses_or_increments [OF k2 r5, of alice] p f n
  have e: "status_code (snd (AddToCartView_post db_one_line alice
                          \<lparr>req_product_id = Some 1, req_quantity = Some 6\<rparr>)) = 400"
    by simp
  from add_to_cart_refuses_or_increments [OF k2 r6, of alice] n
  have g: "\<exists>errs. AddToCartView_post db_one_line alice \<lparr>req_product_id = Some 1, req_quantity = Some 0\<rparr>
              = (db_one_line, Response 400 (Errors errs))"
    by auto
  show ?thesis by (intro conjI a b q(1) c d e g)
qed

section \<open>Cart aggregate: what a cart write stores\<close>

lemma write_row_map:
  assumes "distinct (map ci_id rows)" and "ci \<in> set rows"
  shows "write_row (ci\<lparr>ci_quantity := v\<rparr>) rows
         = map (\<lambda>i. if ci_id i = ci_id ci then i\<lparr>ci_quantity := v\<rparr> else i) rows"
  using assms
proof (induction rows)
  case Nil
  then show ?case by simp
next
  case (Cons x rows)
  from Cons.prems(1) have notin: "ci_id x \<notin> ci_id ` set rows" and d: "distinct (map ci_id rows)"
    by simp_all
  show ?case
  proof (cases "x = ci")
    case True
    from notin True have "\<forall>i \<in> set rows. ci_id i \<noteq> ci_id ci" by (metis imageI)
    then have "map (\<lambda>i. if ci_id i = ci_id ci then i\<lparr>ci_quantity := v\<rparr> else i) rows = rows"
      by (simp add: map_idI)
    with True show ?thesis by simp
  next
    case False
    with Cons.prems(2) have m: "ci \<in> set rows" by simp
    with notin have "ci_id x \<noteq> ci_id ci" by (metis imageI)
    with Cons.IH [OF d m] show ?thesis by simp
  qed
qed

lemma update_accepted:
  assumes keys: "cart_item_keys_ok db"
    and f: "find (\<lambda>i. ci_id i = item_id \<and> ci_cart i = user_id user) (cart_items db) = Some ci"
    and p: "products db (ci_product ci) = Some p"
    and lo: "1 \<le> v" and hi: "v \<le> stock p"
  shows "\<exists>db'. UpdateCartItemView_patch db user item_id (Some v)
               = (db', Response 200 (Cart_message ''Cart item updated successfully''
                                       (cart_items_of db' (user_id user))))
           \<and> cart_items db' = map (\<lambda>i. if ci_id i = item_id then i\<lparr>ci_quantity := v\<rparr> else i) (cart_items db)
           \<and> products db' = products db"
proof -
  from f have mem: "ci \<in> set (cart_items db)" and id: "ci_id ci = item_id" and c: "ci_cart ci = user_id user"
    by (auto simp: find_Some_iff)
  from keys have d: "distinct (map ci_id (cart_items db))" by (simp add: cart_item_keys_ok_def)
  let ?rows = "map (\<lambda>i. if ci_id i = item_id then i\<lparr>ci_quantity := v\<rparr> else i) (cart_items db)"
  let ?db' = "db\<lparr>cart_items := ?rows\<rparr>"
  have ser: "UpdateCartItemSerializer (Some p) (Some v) = Some (Inr v)"
    using lo hi by (simp add: UpdateCartItemSerializer_def)
  have "write_row (ci\<lparr>ci_quantity := v\<rparr>) (cart_items db) = ?rows"
    using write_row_map [OF d mem, of v] id by simp
  with hi have save: "fst (CartItem_save db (ci\<lparr>ci_quantity := v\<rparr>) p) = ?db'"
    by (simp add: CartItem_save_def Let_def)
  have "UpdateCartItemView_patch db user item_id (Some v)
        = (?db', Response 200 (Cart_message ''Cart item updated successfully''
                                 (cart_items_of ?db' (user_id user))))"
    using f p ser save c by (simp add: UpdateCartItemView_patch_def Let_def)
  moreover have "cart_items ?db' = ?rows" "products ?db' = products db" by simp_all
  ultimately show ?thesis by blast
qed

lemma update_above_stock_refused:
  assumes f: "find (\<lambda>i. ci_id i = item_id \<and> ci_cart i = user_id user) (cart_items db) = Some ci"
    and p: "products db (ci_product ci) = Some p"
    and lo: "1 \<le> v" and hi: "stock p < v"
  shows "UpdateCartItemView_patch db user item_id (Some v)
         = (db, Response 400 (Errors [(''quantity'',
              ''Only '' @ str_int (stock p) @ '' items available in stock'')]))"
  using assms by (simp add: UpdateCartItemView_patch_def UpdateCartItemSerializer_def)

text \<open>
  C8 as the specification states it fails. Five phones are in stock; Alice's cart holds one
  and Bob's cart holds five, so every cart row is within stock. Alice's order lowers the
  stock to four. Bob then adds a charger, a cart write that is accepted: afterwards his row
  still asks for five phones with four in stock. And a write that asks for more than the
  stock is not stored as the stock: Alice's update to nine phones is refused with 400 and
  writes nothing.
\<close>

theorem cart_row_above_stock_after_write_counterexample:
  "cart_stock_inv db_two_carts
   \<and> (case CreateOrderView_post failing ''t'' (db_two_carts, ()) alice (Some ''1 Main St'') of
        ((db1, ch1), r1) \<Rightarrow>
          status_code r1 = 201
          \<and> (case AddToCartView_post db1 bob \<lparr>req_product_id = Some 3, req_quantity = Some 1\<rparr> of
               (db2, r2) \<Rightarrow>
                 status_code r2 = 200
                 \<and> quantity_in_cart db2 2 3 = 1
                 \<and> quantity_in_cart db2 2 1 = 5
                 \<and> map_option stock (products db2 1) = Some 4
                 \<and> \<not> cart_stock_inv db2))
   \<and> UpdateCartItemView_patch db_two_carts alice 1 (Some 9)
       = (db_two_carts, Response 400 (Errors [(''quantity'', ''Only 5 items available in stock'')]))"
proof -
  have a: "cart_stock_inv db_two_carts"
    by (simp add: cart_stock_inv_def row_within_stock_def db_two_carts_def phone_def)
  have b: "CreateOrderView_post failing ''t'' (db_two_carts, ()) alice (Some ''1 Main St'')
           = ((db_two_carts\<lparr>products := [1 \<mapsto> phone\<lparr>stock := 4\<rparr>, 3 \<mapsto> charger],
                 cart_items := [\<lparr>ci_id = 2, ci_cart = 2, ci_product = 1, ci_quantity = 5\<rparr>],
                 orders := [\<lparr>o_id = 1, o_user = 1, o_status = Pending, o_total_price = 2000,
                              o_shipping_address = ''1 Main St''\<rparr>],
                 order_items := [\<lparr>oi_order = 1, oi_product = 1, oi_quantity = 1, oi_price = 2000\<rparr>],
                 order_seq := 1\<rparr>, ()),
              Response 201 (Order_message ''Order created successfully''
                 \<lparr>o_id = 1, o_user = 1, o_status = Pending, o_total_price = 2000,
                   o_shipping_address = ''1 Main St''\<rparr>
                 [\<lparr>oi_order = 1, oi_product = 1, oi_quantity = 1, oi_price = 2000\<rparr>]))"
    by (simp add: CreateOrderView_post_def CreateOrderView_check_def CreateOrderView_commit_def
        address_valid cart_items_of_def Cart_total_price_def Order_create_def OrderItem_create_def
        decrease_stock_def Product_save_def Cart_clear_def order_items_of_def failing_def
        order_created_events_def db_two_carts_def alice_def phone_def Let_def fun_upd_twist)
  let ?db1 = "db_two_carts\<lparr>products := [1 \<mapsto> phone\<lparr>stock := 4\<rparr>, 3 \<mapsto> charger],
                 cart_items := [\<lparr>ci_id = 2, ci_cart = 2, ci_product = 1, ci_quantity = 5\<rparr>],
                 orders := [\<lparr>o_id = 1, o_user = 1, o_status = Pending, o_total_price = 2000,
                              o_shipping_address = ''1 Main St''\<rparr>],
                 order_items := [\<lparr>oi_order = 1, oi_product = 1, oi_quantity = 1, oi_price = 2000\<rparr>],
                 order_seq := 1\<rparr>"
  let ?r = "AddToCartView_post ?db1 bob \<lparr>req_product_id = Some 3, req_quantity = Some 1\<rparr>"
  have c: "cart_items (fst ?r) = [\<lparr>ci_id = 2, ci_cart = 2, ci_product = 1, ci_quantity = 5\<rparr>,
                                  \<lparr>ci_id = 3, ci_cart = 2, ci_product = 3, ci_quantity = 1\<rparr>]"
    and d: "products (fst ?r) = [1 \<mapsto> phone\<lparr>stock := 4\<rparr>, 3 \<mapsto> charger]"
    and e: "status_code (snd ?r) = 200"
    by (simp_all add: AddToCartView_post_def AddToCartSerializer_def product_id_field_def
        quantity_field_def validate_product_id_def validate_quantity_def in_stock_def
        Cart_get_or_create_def CartItem_get_or_create_def CartItem_save_def
        db_two_carts_def bob_def charger_def Let_def)
  have g: "quantity_in_cart (fst ?r) 2 3 = 1" "quantity_in_cart (fst ?r) 2 1 = 5"
    "map_option stock (products (fst ?r) 1) = Some 4" "\<not> cart_stock_inv (fst ?r)"
    by (simp_all add: quantity_in_cart_def cart_stock_inv_def row_within_stock_def c d)
  have h: "UpdateCartItemView_patch db_two_carts alice 1 (Some 9)
           = (db_two_carts, Response 400 (Errors [(''quantity'', ''Only 5 items available in stock'')]))"
    by (simp add: UpdateCartItemView_patch_def UpdateCartItemSerializer_def db_two_carts_def
        alice_def phone_def str_int_small)
  show ?thesis
    unfolding b using a e g h by (simp add: case_prod_unfold)
qed

text \<open>
  C8, as the code has it. The row that a cart write stores is within the stock of its
  product. \<open>CartItem.save\<close> stores the smaller of the requested quantity and the stock. An
  accepted add leaves in the cart's row of the product the old quantity plus the requested
  one, cut down to the stock. An accepted update stores the requested quantity, which is at
  most the stock, in the row of the given id. An add or an update that asks for more than
  the stock is refused with 400 and changes no cart row. No cart write touches the other
  rows or the products; so if every cart row was within stock before the write, every cart
  row is within stock after it.
\<close>

theorem cart_write_stores_within_stock:
  assumes "cart_item_keys_ok db"
  shows "(products db (ci_product self) = Some product
            \<longrightarrow> ci_quantity (snd (CartItem_save db self product)) = min (ci_quantity self) (stock product)
              \<and> snd (CartItem_save db self product) \<in> set (cart_items (fst (CartItem_save db self product)))
              \<and> row_within_stock (fst (CartItem_save db self product)) (snd (CartItem_save db self product)))
       \<and> (\<forall>pid p. req_product_id add_req = Some pid \<and> products db pid = Some p \<and> is_active p
                \<and> 1 \<le> requested_quantity add_req \<and> requested_quantity add_req \<le> stock p
            \<longrightarrow> quantity_in_cart (fst (AddToCartView_post db user add_req)) (user_id user) pid
                  = min (quantity_in_cart db (user_id user) pid + requested_quantity add_req) (stock p)
                \<and> quantity_in_cart (fst (AddToCartView_post db user add_req)) (user_id user) pid \<le> stock p
                \<and> filter (\<lambda>i. \<not> (ci_cart i = user_id user \<and> ci_product i = pid))
                      (cart_items (fst (AddToCartView_post db user add_req)))
                    = filter (\<lambda>i. \<not> (ci_cart i = user_id user \<and> ci_product i = pid)) (cart_items db)
                \<and> products (fst (AddToCartView_post db user add_req)) = products db)
       \<and> (\<forall>pid p. req_product_id add_req = Some pid \<and> products db pid = Some p \<and> is_active p
                \<and> 0 < stock p \<and> stock p < requested_quantity add_req
            \<longrightarrow> status_code (snd (AddToCartView_post db user add_req)) = 400
                \<and> cart_items (fst (AddToCartView_post db user add_req)) = cart_items db
                \<and> products (fst (AddToCartView_post db user add_req)) = products db)
       \<and> (\<forall>ci p v. find (\<lambda>i. ci_id i = item_id \<and> ci_cart i = user_id user) (cart_items db) = Some ci
                \<and> products db (ci_product ci) = Some p \<and> 1 \<le> v \<and> v \<le> stock p
            \<longrightarrow> status_code (snd (UpdateCartItemView_patch db user item_id (Some v))) = 200
                \<and> cart_items (fst (UpdateCartItemView_patch db user item_id (Some v)))
                    = map (\<lambda>i. if ci_id i = item_id then i\<lparr>ci_quantity := v\<rparr> else i) (cart_items db)
                \<and> products (fst (UpdateCartItemView_patch db user item_id (Some v))) = products db)
       \<and> (\<forall>ci p v. find (\<lambda>i. ci_id i = item_id \<and> ci_cart i = user_id user) (cart_items db) = Some ci
                \<and> products db (ci_product ci) = Some p \<and> 1 \<le> v \<and> stock p < v
            \<longrightarrow> UpdateCartItemView_patch db user item_id (Some v)
                  = (db, Response 400 (Errors [(''quantity'',
                       ''Only '' @ str_int (stock p) @ '' items available in stock'')])))
       \<and> (cart_stock_inv db
            \<longrightarrow> cart_stock_inv (fst (AddToCartView_post db user add_req))
              \<and> cart_stock_inv (fst (UpdateCartItemView_patch db user item_id update_req)))"
proof (intro conjI allI impI)
  have mem: "r \<in> set (write_row r rows)" for r rows by (induction rows) auto
  have ci: "cart_items (fst (CartItem_save db self product))
            = write_row (snd (CartItem_save db self product)) (cart_items db)"
    and pr: "products (fst (CartItem_save db self product)) = products db"
    by (simp_all add: CartItem_save_def Let_def)
  show "ci_quantity (snd (CartItem_save db self product)) = min (ci_quantity self) (stock product)"
    by (simp add: CartItem_save_row)
  show "snd (CartItem_save db self product) \<in> set (cart_items (fst (CartItem_save db self product)))"
    unfolding ci by (rule mem)
  assume "products db (ci_product self) = Some product"
  then show "row_within_stock (fst (CartItem_save db self product)) (snd (CartItem_save db self product))"
    by (simp add: row_within_stock_def pr CartItem_save_row)
next
  fix pid p
  assume a: "req_product_id add_req = Some pid \<and> products db pid = Some p \<and> is_active p
             \<and> 1 \<le> requested_quantity add_req \<and> requested_quantity add_req \<le> stock p"
  then have h: "req_product_id add_req = Some pid" "products db pid = Some p" "is_active p"
    "1 \<le> requested_quantity add_req" "requested_quantity add_req \<le> stock p"
    by simp_all
  from add_accepted [OF assms h, of user] obtain db' where
    r: "fst (AddToCartView_post db user add_req) = db'"
    and q: "quantity_in_cart db' (user_id user) pid
            = min (quantity_in_cart db (user_id user) pid + requested_quantity add_req) (stock p)"
    and o: "filter (\<lambda>i. \<not> (ci_cart i = user_id user \<and> ci_product i = pid)) (cart_items db')
            = filter (\<lambda>i. \<not> (ci_cart i = user_id user \<and> ci_product i = pid)) (cart_items db)"
    and pp: "products db' = products db"
    by auto
  from q show "quantity_in_cart (fst (AddToCartView_post db user add_req)) (user_id user) pid
               = min (quantity_in_cart db (user_id user) pid + requested_quantity add_req) (stock p)"
    unfolding r .
  from q show "quantity_in_cart (fst (AddToCartView_post db user add_req)) (user_id user) pid \<le> stock p"
    unfolding r by simp
  from o show "filter (\<lambda>i. \<not> (ci_cart i = user_id user \<and> ci_product i = pid))
                 (cart_items (fst (AddToCartView_post db user add_req)))
               = filter (\<lambda>i. \<not> (ci_cart i = user_id user \<and> ci_product i = pid)) (cart_items db)"
    unfolding r .
  from pp show "products (fst (AddToCartView_post db user add_req)) = products db"
    unfolding r .
next
  fix pid p
  assume a: "req_product_id add_req = Some pid \<and> products db pid = Some p \<and> is_active p
             \<and> 0 < stock p \<and> stock p < requested_quantity add_req"
  then have h: "req_product_id add_req = Some pid" "products db pid = Some p" "is_active p"
    "0 < stock p" "stock p < requested_quantity add_req"
    by simp_all
  note r = add_above_stock_refused [OF h, of user]
  from r show "status_code (snd (AddToCartView_post db user add_req)) = 400" by (rule conjunct1)
  from r show "cart_items (fst (AddToCartView_post db user add_req)) = cart_items db"
    by (rule conjunct2 [THEN conjunct1])
  from r show "products (fst (AddToCartView_post db user add_req)) = products db"
    by (rule conjunct2 [THEN conjunct2, THEN conjunct1])
next
  fix ci p v
  assume a: "find (\<lambda>i. ci_id i = item_id \<and> ci_cart i = user_id user) (cart_items db) = Some ci
             \<and> products db (ci_product ci) = Some p \<and> 1 \<le> v \<and> v \<le> stock p"
  then have h: "find (\<lambda>i. ci_id i = item_id \<and> ci_cart i = user_id user) (cart_items db) = Some ci"
    "products db (ci_product ci) = Some p" "1 \<le> v" "v \<le> stock p"
    by simp_all
  from update_accepted [OF assms h] obtain db' where
    r: "UpdateCartItemView_patch db user item_id (Some v)
          = (db', Response 200 (Cart_message ''Cart item updated successfully''
                                  (cart_items_of db' (user_id user))))"
    and c: "cart_items db' = map (\<lambda>i. if ci_id i = item_id then i\<lparr>ci_quantity := v\<rparr> else i) (cart_items db)"
    and pp: "products db' = products db"
    by blast
  show "status_code (snd (UpdateCartItemView_patch db user item_id (Some v))) = 200"
    unfolding r by simp
  from c show "cart_items (fst (UpdateCartItemView_patch db user item_id (Some v)))
               = map (\<lambda>i. if ci_id i = item_id then i\<lparr>ci_quantity := v\<rparr> else i) (cart_items db)"
    unfolding r by simp
  from pp show "products (fst (UpdateCartItemView_patch db user item_id (Some v))) = products db"
    unfolding r by simp
next
  fix ci p v
  assume a: "find (\<lambda>i. ci_id i = item_id \<and> ci_cart i = user_id user) (cart_items db) = Some ci
             \<and> products db (ci_product ci) = Some p \<and> 1 \<le> v \<and> stock p < v"
  then have h: "find (\<lambda>i. ci_id i = item_id \<and> ci_cart i = user_id user) (cart_items db) = Some ci"
    "products db (ci_product ci) = Some p" "1 \<le> v" "stock p < v"
    by simp_all
  show "UpdateCartItemView_patch db user item_id (Some v)
        = (db, Response 400 (Errors [(''quantity'',
             ''Only '' @ str_int (stock p) @ '' items available in stock'')]))"
    by (rule update_above_stock_refused [OF h])
next
  assume i: "cart_stock_inv db"
  then show "cart_stock_inv (fst (AddToCartView_post db user add_req))"
    by (rule AddToCartView_post_inv)
  from i show "cart_stock_inv (fst (UpdateCartItemView_patch db user item_id update_req))"
    by (rule UpdateCartItemView_patch_inv)
qed

theorem cart_write_stores_within_stock_witness:
  "cart_item_keys_ok db_one_line \<and> cart_stock_inv db_one_line
   \<and> ci_quantity (snd (CartItem_save db_one_line
         \<lparr>ci_id = 1, ci_cart = 1, ci_product = 1, ci_quantity = 9\<rparr> phone)) = 5
   \<and> quantity_in_cart (fst (AddToCartView_post db_one_line alice
         \<lparr>req_product_id = Some 1, req_quantity = Some 5\<rparr>)) 1 1 = 5
   \<and> cart_items (fst (UpdateCartItemView_patch db_one_line alice 1 (Some 3)))
       = [\<lparr>ci_id = 1, ci_cart = 1, ci_product = 1, ci_quantity = 3\<rparr>]
   \<and> UpdateCartItemView_patch db_one_line alice 1 (Some 9)
       = (db_one_line, Response 400 (Errors [(''quantity'', ''Only 5 items available in stock'')]))
   \<and> cart_stock_inv (fst (AddToCartView_post db_one_line alice
         \<lparr>req_product_id = Some 1, req_quantity = Some 5\<rparr>))
   \<and> cart_stock_inv (fst (UpdateCartItemView_patch db_one_line alice 1 (Some 3)))"
proof -
  let ?row = "\<lparr>ci_id = 1, ci_cart = 1, ci_product = 1, ci_quantity = 1\<rparr>"
  let ?req = "\<lparr>req_product_id = Some 1, req_quantity = Some 5\<rparr>"
  have k: "cart_item_keys_ok db_one_line" by (simp add: cart_item_keys_ok_def db_one_line_def)
  have inv: "cart_stock_inv db_one_line"
    by (simp add: cart_stock_inv_def row_within_stock_def db_one_line_def phone_def)
  have p: "products db_one_line 1 = Some phone" by (simp add: db_one_line_def)
  have s: "stock phone = 5" "is_active phone" by (simp_all add: phone_def)
  have u: "user_id alice = 1" by (simp add: alice_def)
  have rows: "cart_items db_one_line = [?row]" by (simp add: db_one_line_def)
  have f: "find (\<lambda>i. ci_id i = 1 \<and> ci_cart i = 1) (cart_items db_one_line) = Some ?row"
    by (simp add: rows)
  have q: "quantity_in_cart db_one_line 1 1 = 1" by (simp add: quantity_in_cart_def rows)
  have n: "requested_quantity ?req = 5" "req_product_id ?req = Some 1"
    by (simp_all add: requested_quantity_def)
  have t: "str_int 5 = ''5''" by (rule str_int_small)
  note w = cart_write_stores_within_stock [OF k,
      of "\<lparr>ci_id = 1, ci_cart = 1, ci_product = 1, ci_quantity = 9\<rparr>" phone ?req alice 1 "Some 3"]
  from w p s have a: "ci_quantity (snd (CartItem_save db_one_line
         \<lparr>ci_id = 1, ci_cart = 1, ci_product = 1, ci_quantity = 9\<rparr> phone)) = 5"
    by simp
  from w p s n q u have b: "quantity_in_cart (fst (AddToCartView_post db_one_line alice ?req)) 1 1 = 5"
    by simp
  from w f p s u rows have c: "cart_items (fst (UpdateCartItemView_patch db_one_line alice 1 (Some 3)))
       = [\<lparr>ci_id = 1, ci_cart = 1, ci_product = 1, ci_quantity = 3\<rparr>]"
    by simp
  from w f p s u t have d: "UpdateCartItemView_patch db_one_line alice 1 (Some 9)
       = (db_one_line, Response 400 (Errors [(''quantity'', ''Only 5 items available in stock'')]))"
    by simp
  from w inv have e: "cart_stock_inv (fst (AddToCartView_post db_one_line alice ?req))"
    "cart_stock_inv (fst (UpdateCartItemView_patch db_one_line alice 1 (Some 3)))"
    by simp_all
  show ?thesis by (intro conjI k inv a b c d e)
qed

end
